theory Spec2Isabelle
  imports Complex_Main "HOL-Library.Sublist"
begin

section \<open>Python values used by the OCR service\<close>

text \<open>
  A Python \<^verbatim>\<open>str\<close> is a sequence of Unicode code points, and \<^verbatim>\<open>in\<close>,
  \<^verbatim>\<open>replace\<close>, \<^verbatim>\<open>strip\<close> and \<^verbatim>\<open>join\<close> all work on code points. A string is
  therefore a list of code points, each a natural number (Tamil letters are in the range
  2944 to 3071, ASCII below 128).
\<close>

type_synonym pystr = "nat list"

text \<open>
  The exceptions of the model: the two that the arithmetic and indexing of
  \<^verbatim>\<open>parse_ocr_result\<close> could raise, and \<open>Exception msg\<close> for anything raised by a library
  call (file read, image decoding, HTTP fetch, recognition), with \<open>msg\<close> its \<^verbatim>\<open>str(e)\<close>.
\<close>

datatype py_exception = IndexError | ZeroDivisionError | Exception pystr

text \<open>\<^verbatim>\<open>sub in s\<close> for strings: \<open>sub\<close> occurs in \<open>s\<close> as a contiguous run.\<close>

fun contains :: "pystr \<Rightarrow> pystr \<Rightarrow> bool" where
  "contains sub [] = (sub = [])"
| "contains sub (c # cs) = (prefix sub (c # cs) \<or> contains sub cs)"

text \<open>
  \<^verbatim>\<open>s.replace(old, new)\<close>: every non-overlapping occurrence of \<open>old\<close>, found from the
  left, is replaced by \<open>new\<close>. With an empty \<open>old\<close> Python puts \<open>new\<close> before every
  code point and at the end.
\<close>

function replace :: "pystr \<Rightarrow> pystr \<Rightarrow> pystr \<Rightarrow> pystr" where
  "replace [] old new = (if old = [] then new else [])"
| "replace (c # cs) old new =
     (if old = [] then new @ c # replace cs old new
      else if prefix old (c # cs) then new @ replace (drop (length old) (c # cs)) old new
      else c # replace cs old new)"
  by pat_completeness auto
termination
  by (relation "measure (\<lambda>(s, old, new). length s)") auto

section \<open>The correction table\<close>

text \<open>
  \<^verbatim>\<open>TAMIL_CORRECTIONS\<close> is a dict literal with 56 distinct keys; a Python dict iterates in
  insertion order, so the table is the list of its (wrong, correct) pairs in the order of
  the source, lines 50 to 106.
\<close>

definition TAMIL_CORRECTIONS :: "(pystr \<times> pystr) list" where
  "TAMIL_CORRECTIONS =
  [([2980, 2990, 3021, 2996, 3021, 2984, 3006, 2975, 3009],
    [2980, 2990, 3007, 2996, 3021, 2984, 3006, 2975, 3009]), \<comment> \<open>line 50\<close>
   ([2980, 2990, 3021, 2996, 3021],
    [2980, 2990, 3007, 2996, 3021]), \<comment> \<open>line 51\<close>
   ([2965, 2992, 3009, 2970, 3021, 2970, 3007],
    [2980, 3007, 2992, 3009, 2970, 3021, 2970, 3007]), \<comment> \<open>line 52\<close>
   ([2980, 2951, 3007, 2993, 3009, 2970, 3021, 2970, 3007],
    [2980, 3007, 2992, 3009, 2970, 3021, 2970, 3007]), \<comment> \<open>line 53\<close>
   ([2980, 2951, 2992, 3009, 2970, 3021, 2970, 3007],
    [2980, 3007, 2992, 3009, 2970, 3021, 2970, 3007]), \<comment> \<open>line 54\<close>
   ([2980, 3007, 2992, 3009, 2970, 3021, 2970],
    [2980, 3007, 2992, 3009, 2970, 3021, 2970, 3007]), \<comment> \<open>line 55\<close>
   ([2986, 3014, 2969, 3021, 2965, 2995, 3009, 3010, 2992, 3009],
    [2986, 3014, 2969, 3021, 2965, 2995, 3010, 2992, 3009]), \<comment> \<open>line 56\<close>
   ([2986, 3014, 2969, 3021, 2965, 2995, 3010, 174, 2992, 3009],
    [2986, 3014, 2969, 3021, 2965, 2995, 3010, 2992, 3009]), \<comment> \<open>line 57\<close>
   ([2990, 2969, 3009, 2992, 3016],
    [2990, 2980, 3009, 2992, 3016]), \<comment> \<open>line 58\<close>
   ([2990, 3006, 2980, 3009, 2992, 3016],
    [2990, 2980, 3009, 2992, 3016]), \<comment> \<open>line 59\<close>
   ([76, 2990, 2992, 3016],
    [2990, 2980, 3009, 2992, 3016]), \<comment> \<open>line 60\<close>
   ([76, 2990, 2965, 2992, 3016],
    [2990, 2980, 3009, 2992, 3016]), \<comment> \<open>line 61\<close>
   ([2970, 2994, 2990, 3021],
    [2970, 3015, 2994, 2990, 3021]), \<comment> \<open>line 62\<close>
   ([3009, 2990, 3021, 2986, 2965, 3018, 2979, 2990, 3021],
    [2965, 3009, 2990, 3021, 2986, 2965, 3019, 2979, 2990, 3021]), \<comment> \<open>line 63\<close>
   ([2965, 3009, 2990, 3021, 2986, 2965, 3018, 2979, 2990, 3021],
    [2965, 3009, 2990, 3021, 2986, 2965, 3019, 2979, 2990, 3021]), \<comment> \<open>line 64\<close>
   ([2947, 2990, 3021, 2986, 2965, 3018, 2979, 2990, 3021],
    [2965, 3009, 2990, 3021, 2986, 2965, 3019, 2979, 2990, 3021]), \<comment> \<open>line 65\<close>
   ([2965, 3006, 2991, 2990, 3021, 2986, 3009, 2980, 3021, 2965, 3010, 3006, 2992, 3021],
    [2965, 3019, 2991, 2990, 3021, 2986, 3009, 2980, 3021, 2980, 3010, 2992, 3021]), \<comment> \<open>line 66\<close>
   ([2965, 3006, 2991, 2990, 3021, 2986, 3009, 2980, 3021, 2965, 3010, 2992, 3021],
    [2965, 3019, 2991, 2990, 3021, 2986, 3009, 2980, 3021, 2980, 3010, 2992, 3021]), \<comment> \<open>line 67\<close>
   ([2965, 3007, 2965, 2970, 2970, 3014, 2984, 3021, 2965, 3006, 2992, 3021],
    [2980, 3007, 2992, 3009, 2970, 3021, 2970, 3014, 2984, 3021, 2980, 3010, 2992, 3021]), \<comment> \<open>line 68\<close>
   ([2965, 3007, 2993, 3009, 2970, 3021, 2970, 3014, 2984, 3021, 2965, 3010, 2992, 3021],
    [2980, 3007, 2992, 3009, 2970, 3021, 2970, 3014, 2984, 3021, 2980, 3010, 2992, 3021]), \<comment> \<open>line 69\<close>
   ([2980, 3007, 2992, 3009, 2984, 3014, 2994, 3021, 2997, 3014, 2994, 3007],
    [2980, 3007, 2992, 3009, 2984, 3014, 2994, 3021, 2997, 3015, 2994, 3007]), \<comment> \<open>line 70\<close>
   ([2965, 2985, 3021, 2985, 3007, 2991, 3006, 2965, 3009, 2990, 2992, 3007],
    [2965, 2985, 3021, 2985, 3007, 2991, 3006, 2965, 3009, 2990, 2992, 3007]), \<comment> \<open>line 71\<close>
   ([66, 2993, 2986, 2992, 2990],
    [2980, 3006, 2992, 3006, 2986, 3009, 2992, 2990, 3021]), \<comment> \<open>line 72\<close>
   ([66, 3006, 2993, 3006, 2986, 3009, 2992, 2990, 3021],
    [2980, 3006, 2992, 3006, 2986, 3009, 2992, 2990, 3021]), \<comment> \<open>line 73\<close>
   ([3006, 2993, 3006, 2986, 3009, 2992, 2990, 3021],
    [2980, 3006, 2992, 3006, 2986, 3009, 2992, 2990, 3021]), \<comment> \<open>line 74\<close>
   ([2965, 2965, 2965, 3009, 2965, 3021, 2965, 3009, 105, 2975],
    [2980, 3010, 2980, 3021, 2980, 3009, 2965, 3021, 2965, 3009, 2975, 3007]), \<comment> \<open>line 75\<close>
   ([66, 66, 2965, 2965, 49, 57],
    [2980, 3010, 2980, 3021, 2980, 3009, 2965, 3021, 2965, 3009, 2975, 3007]), \<comment> \<open>line 76\<close>
   ([2962, 101, 110, 116],
    [2962, 2970, 3010, 2992, 3021]), \<comment> \<open>line 77\<close>
   ([2951, 2992, 3006, 2990, 3015, 3000, 3021, 2997, 3015, 2990, 3021],
    [2951, 2992, 3006, 2990, 3015, 3000, 3021, 2997, 2992, 2990, 3021]), \<comment> \<open>line 78\<close>
   ([2986, 3015, 2980, 3009, 2984, 3021, 2980, 3009],
    [2986, 3015, 2992, 3009, 2984, 3021, 2980, 3009]), \<comment> \<open>line 79\<close>
   ([2986, 3015, 2980, 2993, 3021, 2980, 3009, 2965, 2995, 3021],
    [2986, 3015, 2992, 3009, 2984, 3021, 2980, 3009, 2965, 2995, 3021]), \<comment> \<open>line 80\<close>
   ([2986, 3015, 2980, 3009, 2984, 3021, 2980, 3009, 2965, 2995, 3021],
    [2986, 3015, 2992, 3009, 2984, 3021, 2980, 3009, 2965, 2995, 3021]), \<comment> \<open>line 81\<close>
   ([2984, 2994, 3016, 2991, 3016, 2990, 3021],
    [2984, 3007, 2994, 3016, 2991, 2990, 3021]), \<comment> \<open>line 82\<close>
   ([2980, 3014, 3018, 2994, 3016, 2980, 3010, 2990, 2992, 3021],
    [2980, 3018, 2994, 3016, 2980, 3010, 2992, 2990, 3021]), \<comment> \<open>line 83\<close>
   ([2986, 3019, 2965, 3021, 2965, 3009, 2997, 2992, 2980, 3021, 2980, 3009, 2965, 3021],
    [2986, 3019, 2965, 3021, 2965, 3009, 2997, 2992, 2980, 3021, 2980, 3009, 2965, 3021]), \<comment> \<open>line 84\<close>
   ([2965, 2996, 2965, 2990, 3021],
    [2965, 2996, 2965, 2990, 3021]), \<comment> \<open>line 85\<close>
   ([2949, 2992, 2970, 2986, 3021],
    [2949, 2992, 2970, 3009]), \<comment> \<open>line 86\<close>
   ([64, 116, 114, 105, 115, 116, 99, 108],
    []), \<comment> \<open>line 88\<close>
   ([64, 116, 110, 115, 116, 99, 108],
    []), \<comment> \<open>line 89\<close>
   ([64, 116, 114],
    []), \<comment> \<open>line 90\<close>
   ([64, 116, 110, 101, 116, 111, 104, 108, 97, 111, 105, 110],
    []), \<comment> \<open>line 91\<close>
   ([64, 98, 115, 116, 99, 98, 108, 111, 101, 108, 105, 109],
    []), \<comment> \<open>line 92\<close>
   ([116, 99, 98, 108, 111, 103, 46, 105, 110],
    []), \<comment> \<open>line 93\<close>
   ([115, 116, 99, 98, 108, 111, 103],
    []), \<comment> \<open>line 94\<close>
   ([116, 110, 115, 116, 99, 98, 108],
    []), \<comment> \<open>line 95\<close>
   ([98, 103, 45, 105, 110],
    []), \<comment> \<open>line 96\<close>
   ([108, 111, 103, 46, 105, 110],
    []), \<comment> \<open>line 97\<close>
   ([97, 115, 116, 99, 98, 108, 111, 76, 105, 110],
    []), \<comment> \<open>line 98\<close>
   ([99, 99, 98, 108, 111, 103, 46, 105, 110],
    []), \<comment> \<open>line 99\<close>
   ([103, 79, 104, 103, 97, 104],
    []), \<comment> \<open>line 100\<close>
   ([76, 105, 110],
    []), \<comment> \<open>line 101\<close>
   ([76, 68, 67, 85],
    []), \<comment> \<open>line 102\<close>
   ([76, 67],
    []), \<comment> \<open>line 103\<close>
   ([2965, 97, 3021],
    [2965, 2992, 3010, 2992, 3021]), \<comment> \<open>line 104\<close>
   ([2965, 67, 116],
    [2965, 2992, 3010, 2992, 3021]), \<comment> \<open>line 105\<close>
   ([76, 2992],
    [2990, 2980, 3009, 2992, 3016])] \<comment> \<open>line 106\<close>"

text \<open>
  The loop of \<^verbatim>\<open>correct_tamil_text\<close> over the items of a table: a rule whose pattern
  occurs in the current text rewrites it, any other rule leaves it as it is.
\<close>

fun apply_corrections :: "pystr \<Rightarrow> (pystr \<times> pystr) list \<Rightarrow> pystr" where
  "apply_corrections corrected [] = corrected"
| "apply_corrections corrected ((wrong, correct) # rules) =
     apply_corrections
       (if contains wrong corrected then replace corrected wrong correct else corrected) rules"

definition correct_tamil_text :: "pystr \<Rightarrow> pystr" where
  "correct_tamil_text text =
     (if text = [] then text else apply_corrections text TAMIL_CORRECTIONS)"

text \<open>
  The table-order left fold of global replacement that the specification describes, with
  no test of whether a pattern occurs.
\<close>

definition fold_replace :: "(pystr \<times> pystr) list \<Rightarrow> pystr \<Rightarrow> pystr" where
  "fold_replace rules text = foldl (\<lambda>acc (wrong, correct). replace acc wrong correct) text rules"

text \<open>
  A string that the table treats as already correct: no rule that changes its pattern has
  that pattern in the string.
\<close>

definition already_correct :: "pystr \<Rightarrow> bool" where
  "already_correct s =
     list_all (\<lambda>(wrong, correct). wrong = correct \<or> \<not> contains wrong s) TAMIL_CORRECTIONS"

section \<open>Helpers of the result normaliser\<close>

text \<open>
  The code points that \<^verbatim>\<open>str.strip()\<close> removes when called with no argument (the
  characters for which \<^verbatim>\<open>str.isspace\<close> holds).
\<close>

definition isspace :: "nat \<Rightarrow> bool" where
  "isspace c =
     (c \<in> {9, 10, 11, 12, 13, 28, 29, 30, 31, 32, 133, 160, 5760, 8232, 8233, 8239, 8287, 12288}
      \<or> (8192 \<le> c \<and> c \<le> 8202))"

definition strip :: "pystr \<Rightarrow> pystr" where
  "strip s = rev (dropWhile isspace (rev (dropWhile isspace s)))"

text \<open>\<^verbatim>\<open>sep.join(xs)\<close>: the separator stands between neighbours only.\<close>

fun join :: "pystr \<Rightarrow> pystr list \<Rightarrow> pystr" where
  "join sep [] = []"
| "join sep [x] = x"
| "join sep (x # y # ys) = x @ sep @ join sep (y # ys)"

text \<open>\<^verbatim>\<open>enumerate(xs)\<close>, as the list of its (index, element) pairs.\<close>

definition enumerate :: "'a list \<Rightarrow> (nat \<times> 'a) list" where
  "enumerate xs = zip [0..<length xs] xs"

text \<open>\<^verbatim>\<open>xs[i]\<close> for a non-negative index: out of range it raises.\<close>

definition py_getitem :: "'a list \<Rightarrow> nat \<Rightarrow> py_exception + 'a" where
  "py_getitem xs i = (if i < length xs then Inr (xs ! i) else Inl IndexError)"

text \<open>
  Confidences are Python floats. This first reading of the normaliser takes them as real
  numbers: it keeps which values are added and what the sum is divided by, and leaves out
  the rounding error of each floating-point operation. It serves the properties that do
  not depend on the value of the mean; the mean itself is stated further down on the
  normaliser with the arithmetic of the program. \<^verbatim>\<open>x / n\<close> raises for \<open>n = 0\<close>.
\<close>

definition py_truediv :: "real \<Rightarrow> nat \<Rightarrow> py_exception + real" where
  "py_truediv x n = (if n = 0 then Inl ZeroDivisionError else Inr (x / real n))"

text \<open>\<^verbatim>\<open>round(x, ndigits)\<close>: to the nearest multiple of \<open>10^-ndigits\<close>, a tie to the even one.\<close>

definition round_half_even :: "real \<Rightarrow> int" where
  "round_half_even x =
     (let f = \<lfloor>x\<rfloor>; d = x - of_int f
      in if d < 1 / 2 then f else if 1 / 2 < d then f + 1 else if even f then f else f + 1)"

definition py_round :: "real \<Rightarrow> nat \<Rightarrow> real" where
  "py_round x ndigits = of_int (round_half_even (x * 10 ^ ndigits)) / 10 ^ ndigits"

text \<open>\<^verbatim>\<open>int(x)\<close> truncates towards zero.\<close>

definition py_int :: "real \<Rightarrow> int" where
  "py_int x = (if 0 \<le> x then \<lfloor>x\<rfloor> else \<lceil>x\<rceil>)"

text \<open>\<^verbatim>\<open>d.get(key, default)\<close> on a field that may be missing.\<close>

definition dict_get :: "'a option \<Rightarrow> 'a \<Rightarrow> 'a" where
  "dict_get entry fallback = (case entry of None \<Rightarrow> fallback | Some v \<Rightarrow> v)"

section \<open>Engine output and result normalisation\<close>

text \<open>
  One page of engine output is a dict read with \<^verbatim>\<open>.get\<close> under three keys, each of
  which may be missing. A polygon is the nested list that \<^verbatim>\<open>tolist()\<close> gives: a list of
  points, each a list of coordinates.
\<close>

record page_result =
  rec_texts :: "pystr list option"
  rec_scores :: "real list option"
  rec_polys :: "real list list list option"

text \<open>The dict appended to \<^verbatim>\<open>details\<close> for a retained region (source lines 146 to 151).\<close>

record detail =
  d_text :: pystr
  d_original_text :: "pystr option"
  d_confidence :: real
  d_bbox :: "int list list"

text \<open>
  The body of the loop over \<^verbatim>\<open>enumerate(rec_texts)\<close> (source lines 137 to 153), on the
  four variables the loop updates.
\<close>

fun region_step ::
  "real list \<Rightarrow> real list list list \<Rightarrow> pystr list \<times> detail list \<times> real \<times> nat \<Rightarrow> nat \<times> pystr
     \<Rightarrow> py_exception + (pystr list \<times> detail list \<times> real \<times> nat)" where
  "region_step scores polys (lines, details, total_confidence, count) (i, text) =
     (case (if i < length scores then py_getitem scores i else Inr 0) of
        Inl e \<Rightarrow> Inl e
      | Inr confidence \<Rightarrow>
     (case (if i < length polys then py_getitem polys i else Inr []) of
        Inl e \<Rightarrow> Inl e
      | Inr bbox \<Rightarrow>
          (let corrected_text = correct_tamil_text text
           in if strip corrected_text \<noteq> [] then
                Inr (lines @ [corrected_text],
                     details @
                       [\<lparr>d_text = corrected_text,
                         d_original_text = (if text \<noteq> corrected_text then Some text else None),
                         d_confidence = py_round confidence 4,
                         d_bbox = (if bbox \<noteq> [] then map (map py_int) bbox else [])\<rparr>],
                     total_confidence + confidence,
                     count + 1)
              else Inr (lines, details, total_confidence, count))))"

fun region_loop ::
  "real list \<Rightarrow> real list list list \<Rightarrow> pystr list \<times> detail list \<times> real \<times> nat \<Rightarrow> (nat \<times> pystr) list
     \<Rightarrow> py_exception + (pystr list \<times> detail list \<times> real \<times> nat)" where
  "region_loop scores polys st [] = Inr st"
| "region_loop scores polys st (r # rs) =
     (case region_step scores polys st r of
        Inl e \<Rightarrow> Inl e
      | Inr st' \<Rightarrow> region_loop scores polys st' rs)"

text \<open>
  \<^verbatim>\<open>parse_ocr_result\<close>. The engine output is \<^verbatim>\<open>None\<close> or a list of pages; only a
  non-empty list is truthy, and only its first page is read. The result is the tuple
  (extracted_text, lines, avg_confidence, details).
\<close>

definition parse_ocr_result ::
  "page_result list option \<Rightarrow> py_exception + (pystr \<times> pystr list \<times> real \<times> detail list)" where
  "parse_ocr_result result =
     (case (case result of
              Some (page # pages) \<Rightarrow>
                (case py_getitem (page # pages) 0 of
                   Inl e \<Rightarrow> Inl e
                 | Inr page_result \<Rightarrow>
                     region_loop (dict_get (rec_scores page_result) [])
                       (dict_get (rec_polys page_result) []) ([], [], 0, 0)
                       (enumerate (dict_get (rec_texts page_result) [])))
            | _ \<Rightarrow> Inr ([], [], 0, 0)) of
        Inl e \<Rightarrow> Inl e
      | Inr (lines, details, total_confidence, count) \<Rightarrow>
          (case (if 0 < count then py_truediv total_confidence count else Inr 0) of
             Inl e \<Rightarrow> Inl e
           | Inr avg_confidence \<Rightarrow> Inr (join [10] lines, lines, avg_confidence, details)))"

section \<open>The regions the normaliser keeps\<close>

text \<open>
  What \<^verbatim>\<open>parse_ocr_result\<close> reads of the engine output: the three lists of the first
  page, empty where the output is \<^verbatim>\<open>None\<close>, has no page, or the key is missing.
\<close>

definition engine_texts :: "page_result list option \<Rightarrow> pystr list" where
  "engine_texts result =
     (case result of Some (page # pages) \<Rightarrow> dict_get (rec_texts page) [] | _ \<Rightarrow> [])"

definition engine_scores :: "page_result list option \<Rightarrow> real list" where
  "engine_scores result =
     (case result of Some (page # pages) \<Rightarrow> dict_get (rec_scores page) [] | _ \<Rightarrow> [])"

definition engine_polys :: "page_result list option \<Rightarrow> real list list list" where
  "engine_polys result =
     (case result of Some (page # pages) \<Rightarrow> dict_get (rec_polys page) [] | _ \<Rightarrow> [])"

text \<open>
  The regions that pass the test of source line 144, with their indices, in engine order;
  and the confidence and polygon that lines 137 and 138 give the region at index \<open>i\<close>.
\<close>

definition kept_regions :: "pystr list \<Rightarrow> (nat \<times> pystr) list" where
  "kept_regions texts =
     filter (\<lambda>(i, t). strip (correct_tamil_text t) \<noteq> []) (enumerate texts)"

definition region_confidence :: "real list \<Rightarrow> nat \<Rightarrow> real" where
  "region_confidence scores i = (if i < length scores then scores ! i else 0)"

definition region_bbox :: "real list list list \<Rightarrow> nat \<Rightarrow> real list list" where
  "region_bbox polys i = (if i < length polys then polys ! i else [])"

definition region_detail :: "real list \<Rightarrow> real list list list \<Rightarrow> nat \<times> pystr \<Rightarrow> detail" where
  "region_detail scores polys r =
     \<lparr>d_text = correct_tamil_text (snd r),
      d_original_text =
        (if snd r \<noteq> correct_tamil_text (snd r) then Some (snd r) else None),
      d_confidence = py_round (region_confidence scores (fst r)) 4,
      d_bbox = map (map py_int) (region_bbox polys (fst r))\<rparr>"

section \<open>The normaliser with the arithmetic of the program\<close>

text \<open>
  The total and the mean are computed with Python's own numbers: the total starts as the
  int 0, every score is a float, \<^verbatim>\<open>+\<close> and \<^verbatim>\<open>/\<close> are the float operations, each
  rounding its result, and the mean over no region is the int 0. Here the float type and
  its operations are parameters, so that nothing is assumed about how they round: the
  conversion of an int, addition, true division and \<^verbatim>\<open>round(x, ndigits)\<close>.
\<close>

datatype 'f py_number = PyInt int | PyFloat 'f

record 'f float_arith =
  float_of_int :: "int \<Rightarrow> 'f"
  float_add :: "'f \<Rightarrow> 'f \<Rightarrow> 'f"
  float_truediv :: "'f \<Rightarrow> 'f \<Rightarrow> 'f"
  float_round :: "'f \<Rightarrow> nat \<Rightarrow> 'f"

text \<open>An int operand of a float operation is converted to a float first.\<close>

definition as_float :: "'f float_arith \<Rightarrow> 'f py_number \<Rightarrow> 'f" where
  "as_float ar x = (case x of PyInt k \<Rightarrow> float_of_int ar k | PyFloat f \<Rightarrow> f)"

text \<open>\<^verbatim>\<open>total_confidence + confidence\<close>, where \<^verbatim>\<open>confidence\<close> is a float.\<close>

definition number_add :: "'f float_arith \<Rightarrow> 'f py_number \<Rightarrow> 'f \<Rightarrow> 'f py_number" where
  "number_add ar x c = PyFloat (float_add ar (as_float ar x) c)"

text \<open>\<^verbatim>\<open>total_confidence / count\<close>, where \<^verbatim>\<open>count\<close> is an int: it raises for 0.\<close>

definition number_truediv ::
  "'f float_arith \<Rightarrow> 'f py_number \<Rightarrow> nat \<Rightarrow> py_exception + 'f py_number" where
  "number_truediv ar x n =
     (if n = 0 then Inl ZeroDivisionError
      else Inr (PyFloat (float_truediv ar (as_float ar x) (float_of_int ar (int n)))))"

record 'f float_page_result =
  f_rec_texts :: "pystr list option"
  f_rec_scores :: "'f list option"
  f_rec_polys :: "real list list list option"

record 'f float_detail =
  f_text :: pystr
  f_original_text :: "pystr option"
  f_confidence :: 'f
  f_bbox :: "int list list"

text \<open>Source lines 137 to 153 again; the literal \<^verbatim>\<open>0.0\<close> is the float of the int 0.\<close>

fun region_step_float ::
  "'f float_arith \<Rightarrow> 'f list \<Rightarrow> real list list list
     \<Rightarrow> pystr list \<times> 'f float_detail list \<times> 'f py_number \<times> nat \<Rightarrow> nat \<times> pystr
     \<Rightarrow> py_exception + (pystr list \<times> 'f float_detail list \<times> 'f py_number \<times> nat)" where
  "region_step_float ar scores polys (lines, details, total_confidence, count) (i, text) =
     (case (if i < length scores then py_getitem scores i else Inr (float_of_int ar 0)) of
        Inl e \<Rightarrow> Inl e
      | Inr confidence \<Rightarrow>
     (case (if i < length polys then py_getitem polys i else Inr []) of
        Inl e \<Rightarrow> Inl e
      | Inr bbox \<Rightarrow>
          (let corrected_text = correct_tamil_text text
           in if strip corrected_text \<noteq> [] then
                Inr (lines @ [corrected_text],
                     details @
                       [\<lparr>f_text = corrected_text,
                         f_original_text = (if text \<noteq> corrected_text then Some text else None),
                         f_confidence = float_round ar confidence 4,
                         f_bbox = (if bbox \<noteq> [] then map (map py_int) bbox else [])\<rparr>],
                     number_add ar total_confidence confidence,
                     count + 1)
              else Inr (lines, details, total_confidence, count))))"

fun region_loop_float ::
  "'f float_arith \<Rightarrow> 'f list \<Rightarrow> real list list list
     \<Rightarrow> pystr list \<times> 'f float_detail list \<times> 'f py_number \<times> nat \<Rightarrow> (nat \<times> pystr) list
     \<Rightarrow> py_exception + (pystr list \<times> 'f float_detail list \<times> 'f py_number \<times> nat)" where
  "region_loop_float ar scores polys st [] = Inr st"
| "region_loop_float ar scores polys st (r # rs) =
     (case region_step_float ar scores polys st r of
        Inl e \<Rightarrow> Inl e
      | Inr st' \<Rightarrow> region_loop_float ar scores polys st' rs)"

definition parse_ocr_result_float ::
  "'f float_arith \<Rightarrow> 'f float_page_result list option
     \<Rightarrow> py_exception + (pystr \<times> pystr list \<times> 'f py_number \<times> 'f float_detail list)" where
  "parse_ocr_result_float ar result =
     (case (case result of
              Some (page # pages) \<Rightarrow>
                (case py_getitem (page # pages) 0 of
                   Inl e \<Rightarrow> Inl e
                 | Inr page_result \<Rightarrow>
                     region_loop_float ar (dict_get (f_rec_scores page_result) [])
                       (dict_get (f_rec_polys page_result) []) ([], [], PyInt 0, 0)
                       (enumerate (dict_get (f_rec_texts page_result) [])))
            | _ \<Rightarrow> Inr ([], [], PyInt 0, 0)) of
        Inl e \<Rightarrow> Inl e
      | Inr (lines, details, total_confidence, count) \<Rightarrow>
          (case (if 0 < count then number_truediv ar total_confidence count else Inr (PyInt 0)) of
             Inl e \<Rightarrow> Inl e
           | Inr avg_confidence \<Rightarrow> Inr (join [10] lines, lines, avg_confidence, details)))"

text \<open>
  The texts and scores that it reads, the float confidence that line 137 gives the region
  at index \<open>i\<close>, and the confidences of the retained regions in engine order.
\<close>

definition float_engine_texts :: "'f float_page_result list option \<Rightarrow> pystr list" where
  "float_engine_texts result =
     (case result of Some (page # pages) \<Rightarrow> dict_get (f_rec_texts page) [] | _ \<Rightarrow> [])"

definition float_engine_scores :: "'f float_page_result list option \<Rightarrow> 'f list" where
  "float_engine_scores result =
     (case result of Some (page # pages) \<Rightarrow> dict_get (f_rec_scores page) [] | _ \<Rightarrow> [])"

definition float_confidence :: "'f float_arith \<Rightarrow> 'f list \<Rightarrow> nat \<Rightarrow> 'f" where
  "float_confidence ar scores i = (if i < length scores then scores ! i else float_of_int ar 0)"

definition retained_confidences ::
  "'f float_arith \<Rightarrow> 'f float_page_result list option \<Rightarrow> 'f list" where
  "retained_confidences ar result =
     map (\<lambda>r. float_confidence ar (float_engine_scores result) (fst r))
       (kept_regions (float_engine_texts result))"

section \<open>The extraction endpoints\<close>

text \<open>The response model of both endpoints.\<close>

record OCRResult =
  success :: bool
  extracted_text :: pystr
  lines :: "pystr list"
  confidence :: real
  details :: "detail list"
  error :: "pystr option"

record ExtractUrlRequest =
  url :: pystr

text \<open>
  The library calls that the endpoints make, each either returning a value or raising.
  Uploaded files, byte strings, images, pixel arrays and HTTP responses are opaque to the
  service, so their types are parameters. \<open>client_get\<close> stands for opening the client
  with its 30 second timeout and awaiting the GET.
\<close>

record ('file, 'bytes, 'image, 'array, 'response) services =
  file_read :: "'file \<Rightarrow> py_exception + 'bytes"
  Image_open :: "'bytes \<Rightarrow> py_exception + 'image"
  image_mode :: "'image \<Rightarrow> pystr"
  image_convert :: "'image \<Rightarrow> pystr \<Rightarrow> py_exception + 'image"
  np_array :: "'image \<Rightarrow> py_exception + 'array"
  ocr_predict :: "'array \<Rightarrow> py_exception + page_result list option"
  import_httpx :: "py_exception + unit"
  client_get :: "pystr \<Rightarrow> py_exception + 'response"
  raise_for_status :: "'response \<Rightarrow> py_exception + unit"
  response_content :: "'response \<Rightarrow> 'bytes"

text \<open>The string \<^verbatim>\<open>'RGB'\<close>.\<close>

definition RGB :: pystr where
  "RGB = [82, 71, 66]"

text \<open>
  \<^verbatim>\<open>str(e)\<close>. A library exception carries its message; the other two are CPython's
  messages ``list index out of range'' and ``float division by zero''.
\<close>

fun str_exception :: "py_exception \<Rightarrow> pystr" where
  "str_exception (Exception msg) = msg"
| "str_exception IndexError =
     [108, 105, 115, 116, 32, 105, 110, 100, 101, 120, 32, 111, 117, 116, 32, 111, 102, 32,
      114, 97, 110, 103, 101]"
| "str_exception ZeroDivisionError =
     [102, 108, 111, 97, 116, 32, 100, 105, 118, 105, 115, 105, 111, 110, 32, 98, 121, 32,
      122, 101, 114, 111]"

text \<open>
  The steps shared by both endpoints once the image bytes are there (source lines 206 to
  232 and 275 to 296): decode, force RGB, convert, recognise, normalise, build the
  successful result. The log calls between the steps leave the response as it is and are
  left out.
\<close>

definition recognise ::
  "('file, 'bytes, 'image, 'array, 'response) services \<Rightarrow> 'bytes \<Rightarrow> py_exception + OCRResult" where
  "recognise w contents =
     (case Image_open w contents of
        Inl e \<Rightarrow> Inl e
      | Inr img \<Rightarrow>
     (case (if image_mode w img \<noteq> RGB then image_convert w img RGB else Inr img) of
        Inl e \<Rightarrow> Inl e
      | Inr rgb_img \<Rightarrow>
     (case np_array w rgb_img of
        Inl e \<Rightarrow> Inl e
      | Inr image_np \<Rightarrow>
     (case ocr_predict w image_np of
        Inl e \<Rightarrow> Inl e
      | Inr result \<Rightarrow>
     (case parse_ocr_result result of
        Inl e \<Rightarrow> Inl e
      | Inr (text_out, lines_out, avg_confidence, details_out) \<Rightarrow>
          Inr \<lparr>success = True, extracted_text = text_out, lines = lines_out,
               confidence = py_round avg_confidence 4, details = details_out,
               error = None\<rparr>)))))"

text \<open>The \<^verbatim>\<open>try\<close> blocks of the two handlers.\<close>

definition extract_text_try ::
  "('file, 'bytes, 'image, 'array, 'response) services \<Rightarrow> 'file \<Rightarrow> py_exception + OCRResult" where
  "extract_text_try w file =
     (case file_read w file of
        Inl e \<Rightarrow> Inl e
      | Inr contents \<Rightarrow> recognise w contents)"

definition extract_from_url_try ::
  "('file, 'bytes, 'image, 'array, 'response) services \<Rightarrow> ExtractUrlRequest
     \<Rightarrow> py_exception + OCRResult" where
  "extract_from_url_try w request =
     (case import_httpx w of
        Inl e \<Rightarrow> Inl e
      | Inr _ \<Rightarrow>
     (case client_get w (url request) of
        Inl e \<Rightarrow> Inl e
      | Inr response \<Rightarrow>
     (case raise_for_status w response of
        Inl e \<Rightarrow> Inl e
      | Inr _ \<Rightarrow> recognise w (response_content w response))))"

text \<open>The result that both \<^verbatim>\<open>except Exception as e\<close> clauses build.\<close>

definition failed_result :: "py_exception \<Rightarrow> OCRResult" where
  "failed_result e =
     \<lparr>success = False, extracted_text = [], lines = [], confidence = 0, details = [],
      error = Some (str_exception e)\<rparr>"

text \<open>The handlers: the \<^verbatim>\<open>try\<close> block, and the \<^verbatim>\<open>except\<close> clause around all of it.\<close>

definition extract_text ::
  "('file, 'bytes, 'image, 'array, 'response) services \<Rightarrow> 'file \<Rightarrow> py_exception + OCRResult" where
  "extract_text w file =
     (case extract_text_try w file of
        Inr r \<Rightarrow> Inr r
      | Inl e \<Rightarrow> Inr (failed_result e))"

definition extract_from_url ::
  "('file, 'bytes, 'image, 'array, 'response) services \<Rightarrow> ExtractUrlRequest
     \<Rightarrow> py_exception + OCRResult" where
  "extract_from_url w request =
     (case extract_from_url_try w request of
        Inr r \<Rightarrow> Inr r
      | Inl e \<Rightarrow> Inr (failed_result e))"

text \<open>An HTTP response: its status and, when there is one, the result in its body.\<close>

record http_response =
  status_code :: nat
  body :: "OCRResult option"

text \<open>
  Modelled from the spec: the web framework's routing around a handler registered by
  \<^verbatim>\<open>@app.post\<close>, which is not in the repository. Section 6 gives status 200 for a result
  that the handler returns. The framework's own rejections are kept apart: a request that
  it does not accept is answered 422 before the handler runs, and an exception that leaves
  the handler, or a returned result that it cannot serialise, is answered 500. What it
  accepts and what it can serialise are parameters.
\<close>

definition app_post ::
  "('raw \<Rightarrow> 'request option) \<Rightarrow> (OCRResult \<Rightarrow> bool) \<Rightarrow> ('request \<Rightarrow> py_exception + OCRResult)
     \<Rightarrow> 'raw \<Rightarrow> http_response" where
  "app_post accept serialises handler raw =
     (case accept raw of
        None \<Rightarrow> \<lparr>status_code = 422, body = None\<rparr>
      | Some request \<Rightarrow>
          (case handler request of
             Inl e \<Rightarrow> \<lparr>status_code = 500, body = None\<rparr>
           | Inr r \<Rightarrow>
               if serialises r then \<lparr>status_code = 200, body = Some r\<rparr>
               else \<lparr>status_code = 500, body = None\<rparr>))"

section \<open>Substring replacement\<close>

lemma replace_absent: "\<not> contains old s \<Longrightarrow> replace s old new = s"
  by (induction s old new rule: replace.induct) auto

lemma replace_by_itself: "new = old \<Longrightarrow> replace s old new = s"
  by (induction s old new rule: replace.induct) (auto simp: prefix_def)

lemma apply_corrections_unchanged:
  "list_all (\<lambda>(wrong, correct). wrong = correct \<or> \<not> contains wrong s) tbl \<Longrightarrow>
     apply_corrections s tbl = s"
  by (induction tbl) (auto simp: replace_by_itself)

lemma apply_corrections_fold: "apply_corrections s tbl = fold_replace tbl s"
  unfolding fold_replace_def
  by (induction s tbl rule: apply_corrections.induct) (auto simp: replace_absent)

lemma fold_replace_empty:
  "\<forall>(wrong, correct) \<in> set tbl. wrong \<noteq> [] \<Longrightarrow> fold_replace tbl [] = []"
  unfolding fold_replace_def by (induction tbl) auto

lemma TAMIL_CORRECTIONS_patterns: "\<forall>(wrong, correct) \<in> set TAMIL_CORRECTIONS. wrong \<noteq> []"
  by (simp add: TAMIL_CORRECTIONS_def)

section \<open>The correction pass is the table-order fold\<close>

text \<open>
  C3. For every input string, \<^verbatim>\<open>correct_tamil_text\<close> is the left fold, over the
  correction table in its declaration order, of global substring replacement: every rule
  is applied whether or not an earlier one matched (the occurrence test of the source
  changes nothing, since replacing an absent pattern is the identity), a later rule works
  on the text that the earlier rules produced, and the empty input is returned unchanged.
\<close>

theorem correct_tamil_text_is_table_fold:
  "correct_tamil_text s = fold_replace TAMIL_CORRECTIONS s \<and> correct_tamil_text [] = []"
  by (simp add: correct_tamil_text_def apply_corrections_fold fold_replace_empty
        TAMIL_CORRECTIONS_patterns)

text \<open>
  At the misreading in the third row of the table, the third rule rewrites the text and
  the sixth rule then matches inside what the third one wrote.
\<close>

theorem correct_tamil_text_is_table_fold_witness:
  "correct_tamil_text [2965, 2992, 3009, 2970, 3021, 2970, 3007] =
     fold_replace TAMIL_CORRECTIONS [2965, 2992, 3009, 2970, 3021, 2970, 3007]
   \<and> fold_replace (take 3 TAMIL_CORRECTIONS) [2965, 2992, 3009, 2970, 3021, 2970, 3007] =
     [2980, 3007, 2992, 3009, 2970, 3021, 2970, 3007]
   \<and> fold_replace (take 6 TAMIL_CORRECTIONS) [2965, 2992, 3009, 2970, 3021, 2970, 3007] =
     [2980, 3007, 2992, 3009, 2970, 3021, 2970, 3007, 3007]"
  using correct_tamil_text_is_table_fold [of "[2965, 2992, 3009, 2970, 3021, 2970, 3007]"]
  by (simp add: fold_replace_def TAMIL_CORRECTIONS_def)

section \<open>Re-applying the correction pass\<close>

text \<open>
  C2 as stated (correcting twice is the same as correcting once, for every input) fails.
  Each rule makes one pass from left to right and is not applied again to what its own
  deletions bring together: removing the noise mark inside the input below leaves the same
  noise mark, which only a second call removes.
\<close>

theorem single_pass_is_not_idempotent:
  "correct_tamil_text [64, 116, 64, 116, 114, 114] = [64, 116, 114]
   \<and> correct_tamil_text (correct_tamil_text [64, 116, 64, 116, 114, 114]) = []
   \<and> correct_tamil_text (correct_tamil_text [64, 116, 64, 116, 114, 114]) \<noteq>
       correct_tamil_text [64, 116, 64, 116, 114, 114]"
  by (simp add: correct_tamil_text_def TAMIL_CORRECTIONS_def)

text \<open>
  C2, as amended. A string in which no pattern of a rule that changes its pattern occurs
  is returned as it is, so correcting it again gives the same string; and correcting twice
  is the same as correcting once for every input whose corrected form is such a string.
\<close>

theorem correct_tamil_text_fixes_correct_strings:
  "(already_correct s \<longrightarrow> correct_tamil_text s = s)
   \<and> (already_correct (correct_tamil_text s) \<longrightarrow>
        correct_tamil_text (correct_tamil_text s) = correct_tamil_text s)"
  by (simp add: correct_tamil_text_def already_correct_def apply_corrections_unchanged)

text \<open>
  The state name that is the target of the first row is such a string, and it is the
  corrected form of the misreading in that row.
\<close>

theorem correct_tamil_text_fixes_correct_strings_witness:
  "already_correct [2980, 2990, 3007, 2996, 3021, 2984, 3006, 2975, 3009]
   \<and> correct_tamil_text [2980, 2990, 3007, 2996, 3021, 2984, 3006, 2975, 3009] =
       [2980, 2990, 3007, 2996, 3021, 2984, 3006, 2975, 3009]
   \<and> already_correct (correct_tamil_text [2980, 2990, 3021, 2996, 3021, 2984, 3006, 2975, 3009])
   \<and> correct_tamil_text (correct_tamil_text [2980, 2990, 3021, 2996, 3021, 2984, 3006, 2975, 3009]) =
       correct_tamil_text [2980, 2990, 3021, 2996, 3021, 2984, 3006, 2975, 3009]"
proof -
  have fixed: "already_correct [2980, 2990, 3007, 2996, 3021, 2984, 3006, 2975, 3009]"
    by (simp add: already_correct_def TAMIL_CORRECTIONS_def)
  have run: "correct_tamil_text [2980, 2990, 3021, 2996, 3021, 2984, 3006, 2975, 3009] =
      [2980, 2990, 3007, 2996, 3021, 2984, 3006, 2975, 3009]"
    by (simp add: correct_tamil_text_def TAMIL_CORRECTIONS_def)
  from correct_tamil_text_fixes_correct_strings
         [of "[2980, 2990, 3007, 2996, 3021, 2984, 3006, 2975, 3009]", THEN conjunct1,
          rule_format, OF fixed]
       fixed run
  show ?thesis by simp
qed

text \<open>
  The city name that rows three to six give as their target is not such a string: the
  pattern of the sixth row is that name without its last vowel sign (code point 3007), so
  the rule matches inside its own replacement. The name grows by one vowel sign on every
  pass, and the misreading of row three is not mapped to the target that the table gives
  for it.
\<close>

lemma sixth_rule_matches_its_replacement:
  "([2965, 2992, 3009, 2970, 3021, 2970, 3007], [2980, 3007, 2992, 3009, 2970, 3021, 2970, 3007])
     \<in> set TAMIL_CORRECTIONS
   \<and> correct_tamil_text [2965, 2992, 3009, 2970, 3021, 2970, 3007] =
     [2980, 3007, 2992, 3009, 2970, 3021, 2970, 3007, 3007]
   \<and> correct_tamil_text [2980, 3007, 2992, 3009, 2970, 3021, 2970, 3007] =
     [2980, 3007, 2992, 3009, 2970, 3021, 2970, 3007, 3007]
   \<and> correct_tamil_text (correct_tamil_text [2980, 3007, 2992, 3009, 2970, 3021, 2970, 3007]) =
     [2980, 3007, 2992, 3009, 2970, 3021, 2970, 3007, 3007, 3007]"
  by (simp add: correct_tamil_text_def TAMIL_CORRECTIONS_def)

section \<open>What the loop of the normaliser computes\<close>

text \<open>
  One pass of the loop body never raises: the index tests of lines 137 and 138 guard both
  reads. It keeps the region when the corrected text has a character that is not white
  space.
\<close>

lemma region_step_eq:
  "region_step scores polys (ls, ds, tot, cnt) (i, t) =
     Inr (if strip (correct_tamil_text t) \<noteq> []
          then (ls @ [correct_tamil_text t], ds @ [region_detail scores polys (i, t)],
                tot + region_confidence scores i, cnt + 1)
          else (ls, ds, tot, cnt))"
  by (simp add: py_getitem_def region_detail_def region_confidence_def region_bbox_def Let_def)

lemma region_loop_eq:
  "region_loop scores polys (ls, ds, tot, cnt) rs =
     Inr (ls @ map (\<lambda>r. correct_tamil_text (snd r))
                 (filter (\<lambda>(i, t). strip (correct_tamil_text t) \<noteq> []) rs),
          ds @ map (region_detail scores polys)
                 (filter (\<lambda>(i, t). strip (correct_tamil_text t) \<noteq> []) rs),
          tot + sum_list (map (\<lambda>r. region_confidence scores (fst r))
                 (filter (\<lambda>(i, t). strip (correct_tamil_text t) \<noteq> []) rs)),
          cnt + length (filter (\<lambda>(i, t). strip (correct_tamil_text t) \<noteq> []) rs))"
proof (induction rs arbitrary: ls ds tot cnt)
  case Nil
  show ?case by simp
next
  case (Cons r rs)
  obtain i t where r: "r = (i, t)" by (cases r)
  show ?case
    by (simp add: r region_step_eq Cons.IH del: region_step.simps)
qed

lemma parse_ocr_result_eq:
  "parse_ocr_result result =
     Inr (join [10] (map (\<lambda>r. correct_tamil_text (snd r)) (kept_regions (engine_texts result))),
          map (\<lambda>r. correct_tamil_text (snd r)) (kept_regions (engine_texts result)),
          (if kept_regions (engine_texts result) = [] then 0
           else sum_list (map (\<lambda>r. region_confidence (engine_scores result) (fst r))
                   (kept_regions (engine_texts result)))
                / real (length (kept_regions (engine_texts result)))),
          map (region_detail (engine_scores result) (engine_polys result))
            (kept_regions (engine_texts result)))"
proof (cases result)
  case None
  then show ?thesis
    by (simp add: parse_ocr_result_def engine_texts_def kept_regions_def enumerate_def)
next
  case (Some pages)
  show ?thesis
  proof (cases pages)
    case Nil
    with Some show ?thesis
      by (simp add: parse_ocr_result_def engine_texts_def kept_regions_def enumerate_def)
  next
    case (Cons page rest)
    with Some show ?thesis
      by (simp add: parse_ocr_result_def engine_texts_def engine_scores_def engine_polys_def
            kept_regions_def py_getitem_def py_truediv_def region_loop_eq)
  qed
qed


declare region_step.simps [simp del]

section \<open>Lists, joining and rounding\<close>

lemma map_snd_filter_zip:
  "length ns = length xs \<Longrightarrow> map snd (filter (\<lambda>(i, t). P t) (zip ns xs)) = filter P xs"
  by (induction ns xs rule: list_induct2) auto

lemma kept_regions_texts:
  "map (\<lambda>r. correct_tamil_text (snd r)) (kept_regions texts) =
     filter (\<lambda>c. strip c \<noteq> []) (map correct_tamil_text texts)"
proof -
  have "map (\<lambda>r. correct_tamil_text (snd r)) (kept_regions texts) =
          map correct_tamil_text (map snd (kept_regions texts))"
    by simp
  also have "map snd (kept_regions texts) =
          filter (\<lambda>t. strip (correct_tamil_text t) \<noteq> []) texts"
    unfolding kept_regions_def enumerate_def by (rule map_snd_filter_zip) simp
  finally show ?thesis by (simp add: filter_map comp_def)
qed

lemma join_last:
  "ls \<noteq> [] \<Longrightarrow> join sep ls = concat (map (\<lambda>l. l @ sep) (butlast ls)) @ last ls"
  by (induction sep ls rule: join.induct) auto

lemma region_detail_sel:
  "d_text (region_detail scores polys r) = correct_tamil_text (snd r)"
  "d_original_text (region_detail scores polys r) =
     (if snd r \<noteq> correct_tamil_text (snd r) then Some (snd r) else None)"
  "d_confidence (region_detail scores polys r) = py_round (region_confidence scores (fst r)) 4"
  "d_bbox (region_detail scores polys r) = map (map py_int) (region_bbox polys (fst r))"
  by (simp_all add: region_detail_def)

lemma py_round_zero: "py_round 0 n = 0"
  by (simp add: py_round_def round_half_even_def)

section \<open>Which regions are retained\<close>

text \<open>
  C1, as amended. The lines of the result are the corrected texts that still have a
  character other than white space after \<^verbatim>\<open>strip()\<close>, in engine order: a region is
  retained if and only if its corrected text is neither empty nor white space only. The
  number of lines and of detail records is the number of retained regions, and the mean
  confidence is computed over the retained regions only (0 when there is none).
\<close>

theorem lines_are_the_nonblank_corrections:
  assumes "parse_ocr_result result = Inr (txt, ls, avg, ds)"
  shows "ls = filter (\<lambda>c. strip c \<noteq> []) (map correct_tamil_text (engine_texts result))
     \<and> length ls = length (kept_regions (engine_texts result))
     \<and> length ds = length (kept_regions (engine_texts result))
     \<and> avg =
         (if kept_regions (engine_texts result) = [] then 0
          else sum_list (map (\<lambda>r. region_confidence (engine_scores result) (fst r))
                  (kept_regions (engine_texts result)))
               / real (length (kept_regions (engine_texts result))))"
  using assms unfolding parse_ocr_result_eq by (auto simp: kept_regions_texts [symmetric])

section \<open>Mean confidence\<close>

text \<open>The loop with the arithmetic of the program, characterised as the exact one above.\<close>


lemma region_step_float_eq:
  "region_step_float ar scores polys (ls, ds, tot, cnt) (i, t) =
     Inr (if strip (correct_tamil_text t) \<noteq> []
          then (ls @ [correct_tamil_text t],
                ds @ [\<lparr>f_text = correct_tamil_text t,
                        f_original_text = (if t \<noteq> correct_tamil_text t then Some t else None),
                        f_confidence = float_round ar (float_confidence ar scores i) 4,
                        f_bbox = map (map py_int) (region_bbox polys i)\<rparr>],
                number_add ar tot (float_confidence ar scores i), cnt + 1)
          else (ls, ds, tot, cnt))"
  by (simp add: py_getitem_def float_confidence_def region_bbox_def Let_def)

lemma region_loop_float_eq:
  "region_loop_float ar scores polys (ls, ds, tot, cnt) rs =
     Inr (ls @ map (\<lambda>r. correct_tamil_text (snd r))
                 (filter (\<lambda>(i, t). strip (correct_tamil_text t) \<noteq> []) rs),
          ds @ map (\<lambda>r. \<lparr>f_text = correct_tamil_text (snd r),
                          f_original_text =
                            (if snd r \<noteq> correct_tamil_text (snd r) then Some (snd r) else None),
                          f_confidence = float_round ar (float_confidence ar scores (fst r)) 4,
                          f_bbox = map (map py_int) (region_bbox polys (fst r))\<rparr>)
                 (filter (\<lambda>(i, t). strip (correct_tamil_text t) \<noteq> []) rs),
          foldl (number_add ar) tot
            (map (\<lambda>r. float_confidence ar scores (fst r))
               (filter (\<lambda>(i, t). strip (correct_tamil_text t) \<noteq> []) rs)),
          cnt + length (filter (\<lambda>(i, t). strip (correct_tamil_text t) \<noteq> []) rs))"
proof (induction rs arbitrary: ls ds tot cnt)
  case Nil
  show ?case by simp
next
  case (Cons r rs)
  obtain i t where r: "r = (i, t)" by (cases r)
  show ?case
    by (simp add: r region_step_float_eq Cons.IH del: region_step_float.simps)
qed

lemma foldl_number_add_float:
  "foldl (number_add ar) (PyFloat a) cs = PyFloat (foldl (float_add ar) a cs)"
  by (induction cs arbitrary: a) (simp_all add: number_add_def as_float_def)

lemma foldl_number_add_int:
  "cs \<noteq> [] \<Longrightarrow>
     foldl (number_add ar) (PyInt k) cs = PyFloat (foldl (float_add ar) (float_of_int ar k) cs)"
  by (cases cs) (simp_all add: foldl_number_add_float number_add_def as_float_def)


declare region_step_float.simps [simp del]

text \<open>
  C4. For every engine output, \<^verbatim>\<open>parse_ocr_result\<close> returns, never raising a division
  error. When no region is retained the mean confidence is the int 0. Otherwise it is the
  sum of the confidences of the retained regions divided by their number, in the
  arithmetic of the program: the float sum accumulated from 0 in engine order, one float
  addition for each retained region, and one float division by the count. This holds
  whatever the float operations round to.
\<close>

theorem mean_confidence_over_retained:
  "parse_ocr_result_float ar result \<noteq> Inl ZeroDivisionError
   \<and> (\<exists>txt ls ds. parse_ocr_result_float ar result =
         Inr (txt, ls,
              (if retained_confidences ar result = [] then PyInt 0
               else PyFloat
                      (float_truediv ar
                         (foldl (float_add ar) (float_of_int ar 0) (retained_confidences ar result))
                         (float_of_int ar (int (length (retained_confidences ar result)))))),
              ds))"
proof -
  let ?kept = "kept_regions (float_engine_texts result)"
  let ?cs = "retained_confidences ar result"
  have len: "length ?cs = length ?kept"
    by (simp add: retained_confidences_def)
  have run: "\<exists>txt ls ds. parse_ocr_result_float ar result =
         Inr (txt, ls,
              (if ?cs = [] then PyInt 0
               else PyFloat
                      (float_truediv ar (foldl (float_add ar) (float_of_int ar 0) ?cs)
                         (float_of_int ar (int (length ?cs))))),
              ds)"
  proof (cases result)
    case None
    then show ?thesis
      by (simp add: parse_ocr_result_float_def retained_confidences_def float_engine_texts_def
            kept_regions_def enumerate_def)
  next
    case (Some pages)
    show ?thesis
    proof (cases pages)
      case Nil
      with Some show ?thesis
        by (simp add: parse_ocr_result_float_def retained_confidences_def float_engine_texts_def
              kept_regions_def enumerate_def)
    next
      case (Cons page rest)
      have "\<exists>ls' ds'.
        region_loop_float ar (dict_get (f_rec_scores page) []) (dict_get (f_rec_polys page) [])
           ([], [], PyInt 0, 0) (enumerate (dict_get (f_rec_texts page) [])) =
         Inr (ls', ds', foldl (number_add ar) (PyInt 0) ?cs, length ?kept)"
        by (simp add: region_loop_float_eq retained_confidences_def float_engine_texts_def
              float_engine_scores_def kept_regions_def Some Cons)
      then obtain ls' ds' where loop:
        "region_loop_float ar (dict_get (f_rec_scores page) []) (dict_get (f_rec_polys page) [])
           ([], [], PyInt 0, 0) (enumerate (dict_get (f_rec_texts page) [])) =
         Inr (ls', ds', foldl (number_add ar) (PyInt 0) ?cs, length ?kept)"
        by blast
      show ?thesis
      proof (cases "?cs = []")
        case True
        with loop len Some Cons show ?thesis
          by (simp add: parse_ocr_result_float_def py_getitem_def)
      next
        case False
        then have "?kept \<noteq> []" "0 < length ?kept"
          using len by auto
        with False loop len Some Cons show ?thesis
          by (simp add: parse_ocr_result_float_def py_getitem_def number_truediv_def
                foldl_number_add_int as_float_def)
      qed
    qed
  qed
  then show ?thesis by auto
qed

section \<open>The joined text\<close>

text \<open>
  C5, as amended. The extracted text is the retained lines joined by one newline (code
  point 10) between neighbours, and no newline is added after the last line: the text is
  empty when there is no line, and otherwise it is every line but the last followed by a
  newline, then the last line, so that it ends with the last character of the last line.
\<close>

theorem extracted_text_joins_lines:
  assumes "parse_ocr_result result = Inr (txt, ls, avg, ds)"
  shows "txt = join [10] ls
     \<and> (ls = [] \<longrightarrow> txt = [])
     \<and> (ls \<noteq> [] \<longrightarrow>
          txt = concat (map (\<lambda>l. l @ [10]) (butlast ls)) @ last ls
          \<and> last ls \<noteq> [] \<and> last txt = last (last ls))"
proof -
  from assms have joined: "txt = join [10] ls"
    and kept: "ls = map (\<lambda>r. correct_tamil_text (snd r)) (kept_regions (engine_texts result))"
    unfolding parse_ocr_result_eq by auto
  have "l \<noteq> []" if "l \<in> set ls" for l
    using that unfolding kept kept_regions_texts by (auto simp: strip_def)
  then have "last ls \<noteq> []" if "ls \<noteq> []"
    using that last_in_set by blast
  with joined show ?thesis
    by (cases "ls = []") (simp_all add: join_last)
qed

section \<open>Detail records\<close>

text \<open>
  C6. There is one detail record for every retained region, in order, and its
  \<open>original_text\<close> is \<^verbatim>\<open>None\<close> exactly when the corrected text equals the raw engine
  text; otherwise it is the raw engine text.
\<close>

theorem original_text_null_iff_unchanged:
  assumes "parse_ocr_result result = Inr (txt, ls, avg, ds)"
  shows "length ds = length (kept_regions (engine_texts result))
     \<and> (\<forall>k < length ds.
           (d_original_text (ds ! k) = None \<longleftrightarrow>
              correct_tamil_text (snd (kept_regions (engine_texts result) ! k)) =
                snd (kept_regions (engine_texts result) ! k))
         \<and> (d_original_text (ds ! k) \<noteq> None \<longrightarrow>
              d_original_text (ds ! k) = Some (snd (kept_regions (engine_texts result) ! k)))
         \<and> d_text (ds ! k) = correct_tamil_text (snd (kept_regions (engine_texts result) ! k)))"
  using assms unfolding parse_ocr_result_eq
  by (auto simp: region_detail_sel split: if_splits)

text \<open>
  C10. The lines and the detail records of the result have the same length, the text of
  the i-th detail record is the i-th line, and both follow the engine's order of the
  retained regions.
\<close>

theorem details_follow_lines:
  assumes "parse_ocr_result result = Inr (txt, ls, avg, ds)"
  shows "length ls = length ds
     \<and> (\<forall>i < length ls. d_text (ds ! i) = ls ! i)
     \<and> ls = map (\<lambda>r. correct_tamil_text (snd r)) (kept_regions (engine_texts result))"
  using assms unfolding parse_ocr_result_eq by (auto simp: region_detail_sel)

section \<open>Score and polygon lists shorter than the text list\<close>

text \<open>
  C9. No step of the loop raises, whatever the lengths of the score and polygon lists: a
  step on a region beyond both lists adds 0 to the total and, when the region is kept, a
  detail record with confidence 0 and the empty bounding box. So \<^verbatim>\<open>parse_ocr_result\<close>
  returns for every engine output, with as many lines and detail records as retained
  regions; a retained region whose index is beyond the score list has confidence 0 in its
  detail record, and one beyond the polygon list has the empty bounding box.
\<close>

theorem short_score_and_poly_lists_default:
  "(\<exists>st'. region_step scores polys st (i, t) = Inr st')
   \<and> (length scores \<le> i \<longrightarrow> length polys \<le> i \<longrightarrow> strip (correct_tamil_text t) \<noteq> [] \<longrightarrow>
        region_step scores polys (ls0, ds0, tot, cnt) (i, t) =
          Inr (ls0 @ [correct_tamil_text t],
               ds0 @ [\<lparr>d_text = correct_tamil_text t,
                       d_original_text = (if t \<noteq> correct_tamil_text t then Some t else None),
                       d_confidence = 0, d_bbox = []\<rparr>],
               tot, cnt + 1))
   \<and> (\<exists>txt ls avg ds. parse_ocr_result result = Inr (txt, ls, avg, ds)
        \<and> length ls = length (kept_regions (engine_texts result))
        \<and> length ds = length (kept_regions (engine_texts result))
        \<and> (\<forall>k < length ds.
              (length (engine_scores result) \<le> fst (kept_regions (engine_texts result) ! k)
                 \<longrightarrow> d_confidence (ds ! k) = 0)
            \<and> (length (engine_polys result) \<le> fst (kept_regions (engine_texts result) ! k)
                 \<longrightarrow> d_bbox (ds ! k) = [])))"
proof -
  obtain ls ds tot' cnt' where "st = (ls, ds, tot', cnt')"
    by (cases st)
  then have step: "\<exists>st'. region_step scores polys st (i, t) = Inr st'"
    by (simp add: region_step_eq)
  have beyond: "length scores \<le> i \<longrightarrow> length polys \<le> i \<longrightarrow> strip (correct_tamil_text t) \<noteq> [] \<longrightarrow>
        region_step scores polys (ls0, ds0, tot, cnt) (i, t) =
          Inr (ls0 @ [correct_tamil_text t],
               ds0 @ [\<lparr>d_text = correct_tamil_text t,
                       d_original_text = (if t \<noteq> correct_tamil_text t then Some t else None),
                       d_confidence = 0, d_bbox = []\<rparr>],
               tot, cnt + 1)"
    by (simp add: region_step_eq region_detail_def region_confidence_def region_bbox_def
          py_round_zero)
  have whole: "(\<exists>txt ls avg ds. parse_ocr_result result = Inr (txt, ls, avg, ds)
        \<and> length ls = length (kept_regions (engine_texts result))
        \<and> length ds = length (kept_regions (engine_texts result))
        \<and> (\<forall>k < length ds.
              (length (engine_scores result) \<le> fst (kept_regions (engine_texts result) ! k)
                 \<longrightarrow> d_confidence (ds ! k) = 0)
            \<and> (length (engine_polys result) \<le> fst (kept_regions (engine_texts result) ! k)
                 \<longrightarrow> d_bbox (ds ! k) = [])))"
    unfolding parse_ocr_result_eq
    by (simp add: region_detail_sel region_confidence_def region_bbox_def py_round_zero)
  from step beyond whole show ?thesis
    by (intro conjI)
qed


section \<open>Runs on concrete engine output\<close>

text \<open>The equations that evaluate the normaliser on a concrete input.\<close>

lemmas normaliser_eval =
  parse_ocr_result_def py_getitem_def dict_get_def enumerate_def region_step.simps
  correct_tamil_text_def TAMIL_CORRECTIONS_def strip_def isspace_def py_truediv_def
  py_round_def round_half_even_def py_int_def Let_def

text \<open>
  C1 as stated (a region is retained if and only if its text is non-empty after
  correction) fails: two noise marks with a space between them are corrected to a single
  space, which is not empty, and the region is dropped all the same.
\<close>

theorem whitespace_only_correction_is_dropped:
  "correct_tamil_text [64, 116, 114, 32, 64, 116, 114] = [32]
   \<and> correct_tamil_text [64, 116, 114, 32, 64, 116, 114] \<noteq> []
   \<and> parse_ocr_result
        (Some [\<lparr>rec_texts = Some [[64, 116, 114, 32, 64, 116, 114]],
                rec_scores = Some [1 / 2], rec_polys = Some []\<rparr>]) =
       Inr ([], [], 0, [])"
  by (simp add: normaliser_eval)

text \<open>
  The amended C1 on three regions: noise that leaves a space (dropped), a misreading of
  the state name (corrected and kept) and a text with no score (kept with confidence 0).
\<close>

theorem lines_are_the_nonblank_corrections_witness:
  "parse_ocr_result
     (Some [\<lparr>rec_texts = Some [[64, 116, 114, 32, 64, 116, 114], [2980, 2990, 3021, 2996, 3021, 2984, 3006, 2975, 3009], [97, 98]],
             rec_scores = Some [1 / 2, 92 / 100],
             rec_polys = Some [[[3 / 2, 2], [3, - 9 / 2]]]\<rparr>]) =
     Inr ([2980, 2990, 3007, 2996, 3021, 2984, 3006, 2975, 3009] @ [10, 97, 98], [[2980, 2990, 3007, 2996, 3021, 2984, 3006, 2975, 3009], [97, 98]], 23 / 50,
          [\<lparr>d_text = [2980, 2990, 3007, 2996, 3021, 2984, 3006, 2975, 3009], d_original_text = Some [2980, 2990, 3021, 2996, 3021, 2984, 3006, 2975, 3009], d_confidence = 23 / 25, d_bbox = []\<rparr>,
           \<lparr>d_text = [97, 98], d_original_text = None, d_confidence = 0, d_bbox = []\<rparr>])
   \<and> [[2980, 2990, 3007, 2996, 3021, 2984, 3006, 2975, 3009], [97, 98]] =
       filter (\<lambda>c. strip c \<noteq> [])
         (map correct_tamil_text [[64, 116, 114, 32, 64, 116, 114], [2980, 2990, 3021, 2996, 3021, 2984, 3006, 2975, 3009], [97, 98]])
   \<and> kept_regions [[64, 116, 114, 32, 64, 116, 114], [2980, 2990, 3021, 2996, 3021, 2984, 3006, 2975, 3009], [97, 98]] = [(1, [2980, 2990, 3021, 2996, 3021, 2984, 3006, 2975, 3009]), (2, [97, 98])]"
proof -
  let ?R = "Some [\<lparr>rec_texts = Some [[64, 116, 114, 32, 64, 116, 114], [2980, 2990, 3021, 2996, 3021, 2984, 3006, 2975, 3009], [97, 98]],
             rec_scores = Some [1 / 2, 92 / 100],
             rec_polys = Some [[[3 / 2, 2], [3, - 9 / 2]]]\<rparr>]"
  have run: "parse_ocr_result ?R =
     Inr ([2980, 2990, 3007, 2996, 3021, 2984, 3006, 2975, 3009] @ [10, 97, 98], [[2980, 2990, 3007, 2996, 3021, 2984, 3006, 2975, 3009], [97, 98]], 23 / 50,
          [\<lparr>d_text = [2980, 2990, 3007, 2996, 3021, 2984, 3006, 2975, 3009], d_original_text = Some [2980, 2990, 3021, 2996, 3021, 2984, 3006, 2975, 3009], d_confidence = 23 / 25, d_bbox = []\<rparr>,
           \<lparr>d_text = [97, 98], d_original_text = None, d_confidence = 0, d_bbox = []\<rparr>])"
    by (simp add: normaliser_eval)
  have texts: "engine_texts ?R = [[64, 116, 114, 32, 64, 116, 114], [2980, 2990, 3021, 2996, 3021, 2984, 3006, 2975, 3009], [97, 98]]"
    by (simp add: engine_texts_def dict_get_def)
  have kept: "kept_regions [[64, 116, 114, 32, 64, 116, 114], [2980, 2990, 3021, 2996, 3021, 2984, 3006, 2975, 3009], [97, 98]] =
      [(1, [2980, 2990, 3021, 2996, 3021, 2984, 3006, 2975, 3009]), (2, [97, 98])]"
    by (simp add: kept_regions_def normaliser_eval)
  from lines_are_the_nonblank_corrections [OF run] texts kept run show ?thesis
    by simp
qed

text \<open>
  C8. When the engine returns exactly one region, with the misreading of the state name
  in the first row of the table and confidence 0.92, the line is retained with the
  corrected name, the detail record holds the raw text as \<open>original_text\<close>, and the mean
  confidence is 0.92, whatever polygon the engine gives.
\<close>

theorem tamilnadu_scenario:
  "parse_ocr_result
     (Some [\<lparr>rec_texts = Some [[2980, 2990, 3021, 2996, 3021, 2984, 3006, 2975, 3009]], rec_scores = Some [92 / 100], rec_polys = polys\<rparr>]) =
     Inr ([2980, 2990, 3007, 2996, 3021, 2984, 3006, 2975, 3009], [[2980, 2990, 3007, 2996, 3021, 2984, 3006, 2975, 3009]], 92 / 100,
          [\<lparr>d_text = [2980, 2990, 3007, 2996, 3021, 2984, 3006, 2975, 3009], d_original_text = Some [2980, 2990, 3021, 2996, 3021, 2984, 3006, 2975, 3009], d_confidence = 92 / 100,
            d_bbox = map (map py_int) (region_bbox (dict_get polys []) 0)\<rparr>])"
  by (simp add: parse_ocr_result_def py_getitem_def enumerate_def region_step_eq
        region_detail_def region_confidence_def dict_get_def [of "Some x" for x]
        correct_tamil_text_def TAMIL_CORRECTIONS_def strip_def isspace_def py_truediv_def
        py_round_def round_half_even_def)


text \<open>
  C4 with a decimal arithmetic that rounds every sum and quotient to one digit after the
  point, on three regions of which the second is noise: the scores 0.8 and 0.9 add up to
  1.7, and the quotient 0.85 is rounded to 0.8, which is what the theorem gives and not
  the exact mean. On no output the mean is the int 0.
\<close>

theorem mean_confidence_over_retained_witness:
  "parse_ocr_result_float
       \<lparr>float_of_int = real_of_int, float_add = (\<lambda>x y. py_round (x + y) 1),
          float_truediv = (\<lambda>x y. py_round (x / y) 1), float_round = py_round\<rparr>
     (Some [\<lparr>f_rec_texts = Some [[97, 98], [64, 116, 114], [99, 100]],
             f_rec_scores = Some [4 / 5, 1 / 2, 9 / 10], f_rec_polys = None\<rparr>]) =
     Inr ([97, 98, 10, 99, 100], [[97, 98], [99, 100]], PyFloat (4 / 5),
          [\<lparr>f_text = [97, 98], f_original_text = None, f_confidence = 4 / 5, f_bbox = []\<rparr>,
           \<lparr>f_text = [99, 100], f_original_text = None, f_confidence = 9 / 10, f_bbox = []\<rparr>])
   \<and> retained_confidences
       \<lparr>float_of_int = real_of_int, float_add = (\<lambda>x y. py_round (x + y) 1),
          float_truediv = (\<lambda>x y. py_round (x / y) 1), float_round = py_round\<rparr>
       (Some [\<lparr>f_rec_texts = Some [[97, 98], [64, 116, 114], [99, 100]],
               f_rec_scores = Some [4 / 5, 1 / 2, 9 / 10], f_rec_polys = None\<rparr>]) =
     [4 / 5, 9 / 10]
   \<and> parse_ocr_result_float
       \<lparr>float_of_int = real_of_int, float_add = (\<lambda>x y. py_round (x + y) 1),
          float_truediv = (\<lambda>x y. py_round (x / y) 1), float_round = py_round\<rparr>
       None = Inr ([], [], PyInt 0, [])"
  using mean_confidence_over_retained
          [of "\<lparr>float_of_int = real_of_int, float_add = (\<lambda>x y. py_round (x + y) 1),
          float_truediv = (\<lambda>x y. py_round (x / y) 1), float_round = py_round\<rparr>"
              "Some [\<lparr>f_rec_texts = Some [[97, 98], [64, 116, 114], [99, 100]],
                 f_rec_scores = Some [4 / 5, 1 / 2, 9 / 10], f_rec_polys = None\<rparr>]",
           THEN conjunct1]
  by (simp add: parse_ocr_result_float_def region_step_float.simps number_add_def
        number_truediv_def as_float_def retained_confidences_def float_engine_texts_def
        float_engine_scores_def float_confidence_def kept_regions_def normaliser_eval)

text \<open>
  C5 as stated (the extracted text has no trailing newline character) fails: a retained
  line keeps the white space at its ends, so when the last engine text ends in a newline
  the extracted text ends in that newline.
\<close>

theorem last_line_keeps_its_own_newline:
  "parse_ocr_result
     (Some [\<lparr>rec_texts = Some [[97, 10]], rec_scores = Some [1], rec_polys = Some []\<rparr>]) =
     Inr ([97, 10], [[97, 10]], 1,
          [\<lparr>d_text = [97, 10], d_original_text = None, d_confidence = 1, d_bbox = []\<rparr>])
   \<and> last [97, 10] = (10 :: nat)"
  by (simp add: normaliser_eval)

text \<open>The amended C5 on four regions of which the second is a lone space.\<close>

theorem extracted_text_joins_lines_witness:
  "parse_ocr_result
     (Some [\<lparr>rec_texts = Some [[97], [32], [98, 99], [100]],
             rec_scores = Some [1, 1, 1, 1], rec_polys = Some []\<rparr>]) =
     Inr ([97, 10, 98, 99, 10, 100], [[97], [98, 99], [100]], 1,
          [\<lparr>d_text = [97], d_original_text = None, d_confidence = 1, d_bbox = []\<rparr>,
           \<lparr>d_text = [98, 99], d_original_text = None, d_confidence = 1, d_bbox = []\<rparr>,
           \<lparr>d_text = [100], d_original_text = None, d_confidence = 1, d_bbox = []\<rparr>])
   \<and> [97, 10, 98, 99, 10, 100] = join [10] [[97], [98, 99], [100]]
   \<and> [97, 10, 98, 99, 10, 100] =
       concat (map (\<lambda>l. l @ [10]) (butlast [[97], [98, 99], [100 :: nat]])) @
       last [[97], [98, 99], [100]]"
proof -
  have run: "parse_ocr_result
     (Some [\<lparr>rec_texts = Some [[97], [32], [98, 99], [100]],
             rec_scores = Some [1, 1, 1, 1], rec_polys = Some []\<rparr>]) =
     Inr ([97, 10, 98, 99, 10, 100], [[97], [98, 99], [100]], 1,
          [\<lparr>d_text = [97], d_original_text = None, d_confidence = 1, d_bbox = []\<rparr>,
           \<lparr>d_text = [98, 99], d_original_text = None, d_confidence = 1, d_bbox = []\<rparr>,
           \<lparr>d_text = [100], d_original_text = None, d_confidence = 1, d_bbox = []\<rparr>])"
    by (simp add: normaliser_eval)
  from extracted_text_joins_lines [OF run] run show ?thesis
    by simp
qed

text \<open>C6 on a misread city name, which the table changes, and two digits, which it keeps.\<close>

theorem original_text_null_iff_unchanged_witness:
  "parse_ocr_result
     (Some [\<lparr>rec_texts = Some [[2990, 2969, 3009, 2992, 3016], [49, 50]],
             rec_scores = Some [4 / 5, 9 / 10], rec_polys = Some []\<rparr>]) =
     Inr ([2990, 2980, 3009, 2992, 3016, 10, 49, 50],
          [[2990, 2980, 3009, 2992, 3016], [49, 50]], 17 / 20,
          [\<lparr>d_text = [2990, 2980, 3009, 2992, 3016],
            d_original_text = Some [2990, 2969, 3009, 2992, 3016],
            d_confidence = 4 / 5, d_bbox = []\<rparr>,
           \<lparr>d_text = [49, 50], d_original_text = None, d_confidence = 9 / 10, d_bbox = []\<rparr>])
   \<and> kept_regions [[2990, 2969, 3009, 2992, 3016], [49, 50]] =
       [(0, [2990, 2969, 3009, 2992, 3016]), (1, [49, 50])]
   \<and> correct_tamil_text [2990, 2969, 3009, 2992, 3016] \<noteq> [2990, 2969, 3009, 2992, 3016]
   \<and> correct_tamil_text [49, 50] = [49, 50]"
proof -
  let ?R = "Some [\<lparr>rec_texts = Some [[2990, 2969, 3009, 2992, 3016], [49, 50]],
             rec_scores = Some [4 / 5, 9 / 10], rec_polys = Some []\<rparr>]"
  let ?d0 = "\<lparr>d_text = [2990, 2980, 3009, 2992, 3016],
            d_original_text = Some [2990, 2969, 3009, 2992, 3016],
            d_confidence = 4 / 5, d_bbox = []\<rparr>"
  let ?d1 = "\<lparr>d_text = [49, 50], d_original_text = None, d_confidence = 9 / 10, d_bbox = []\<rparr>"
  have run: "parse_ocr_result ?R =
     Inr ([2990, 2980, 3009, 2992, 3016, 10, 49, 50],
          [[2990, 2980, 3009, 2992, 3016], [49, 50]], 17 / 20, [?d0, ?d1])"
    by (simp add: normaliser_eval)
  have kept: "kept_regions (engine_texts ?R) =
       [(0, [2990, 2969, 3009, 2992, 3016]), (1, [49, 50])]"
    by (simp add: kept_regions_def engine_texts_def normaliser_eval)
  have texts: "engine_texts ?R = [[2990, 2969, 3009, 2992, 3016], [49, 50]]"
    by (simp add: engine_texts_def dict_get_def)
  have corr: "correct_tamil_text [2990, 2969, 3009, 2992, 3016] \<noteq> [2990, 2969, 3009, 2992, 3016]"
      "correct_tamil_text [49, 50] = [49, 50]"
    by (simp_all add: correct_tamil_text_def TAMIL_CORRECTIONS_def)
  from original_text_null_iff_unchanged [OF run] run kept texts corr show ?thesis
    by simp
qed


text \<open>C9 on two regions with a single score and no polygon list.\<close>

theorem short_score_and_poly_lists_default_witness:
  "region_step [1 / 2] [] ([[97, 98]], [], 1 / 2, 1) (1, [99, 100]) =
     Inr ([[97, 98], [99, 100]],
          [\<lparr>d_text = [99, 100], d_original_text = None, d_confidence = 0, d_bbox = []\<rparr>],
          1 / 2, 2)
   \<and> parse_ocr_result
       (Some [\<lparr>rec_texts = Some [[97, 98], [99, 100]], rec_scores = Some [1 / 2],
               rec_polys = None\<rparr>]) =
     Inr ([97, 98, 10, 99, 100], [[97, 98], [99, 100]], 1 / 4,
          [\<lparr>d_text = [97, 98], d_original_text = None, d_confidence = 1 / 2, d_bbox = []\<rparr>,
           \<lparr>d_text = [99, 100], d_original_text = None, d_confidence = 0, d_bbox = []\<rparr>])
   \<and> length (engine_scores
         (Some [\<lparr>rec_texts = Some [[97, 98], [99, 100]], rec_scores = Some [1 / 2],
                 rec_polys = None\<rparr>])) = 1
   \<and> length (engine_polys
         (Some [\<lparr>rec_texts = Some [[97, 98], [99, 100]], rec_scores = Some [1 / 2],
                 rec_polys = None\<rparr>])) = 0"
  using short_score_and_poly_lists_default
          [of "[1 / 2]" "[]" "([[97, 98]], [], 1 / 2, 1)" 1 "[99, 100]" "[]" "[]" 0 0
              "Some [\<lparr>rec_texts = Some [[97, 98], [99, 100]], rec_scores = Some [1 / 2],
                 rec_polys = None\<rparr>]", THEN conjunct1]
  by (simp add: normaliser_eval engine_scores_def engine_polys_def)

text \<open>C10 on three regions of which the second is noise, with an empty score list.\<close>

theorem details_follow_lines_witness:
  "parse_ocr_result
     (Some [\<lparr>rec_texts = Some [[76, 2992], [76, 67], [55]],
             rec_scores = Some [], rec_polys = Some [[[10, 20], [30, 40]]]\<rparr>]) =
     Inr ([2990, 2980, 3009, 2992, 3016, 10, 55], [[2990, 2980, 3009, 2992, 3016], [55]], 0,
          [\<lparr>d_text = [2990, 2980, 3009, 2992, 3016], d_original_text = Some [76, 2992],
            d_confidence = 0, d_bbox = [[10, 20], [30, 40]]\<rparr>,
           \<lparr>d_text = [55], d_original_text = None, d_confidence = 0, d_bbox = []\<rparr>])
   \<and> length [[2990, 2980, 3009, 2992, 3016], [55 :: nat]] =
       length [\<lparr>d_text = [2990, 2980, 3009, 2992, 3016], d_original_text = Some [76, 2992],
                d_confidence = 0, d_bbox = [[10, 20], [30, 40]]\<rparr>,
               \<lparr>d_text = [55], d_original_text = None, d_confidence = 0, d_bbox = []\<rparr>]
   \<and> map d_text
         [\<lparr>d_text = [2990, 2980, 3009, 2992, 3016], d_original_text = Some [76, 2992],
            d_confidence = 0, d_bbox = [[10, 20], [30, 40]]\<rparr>,
          \<lparr>d_text = [55], d_original_text = None, d_confidence = 0, d_bbox = []\<rparr>] =
       [[2990, 2980, 3009, 2992, 3016], [55]]"
proof -
  have run: "parse_ocr_result
     (Some [\<lparr>rec_texts = Some [[76, 2992], [76, 67], [55]],
             rec_scores = Some [], rec_polys = Some [[[10, 20], [30, 40]]]\<rparr>]) =
     Inr ([2990, 2980, 3009, 2992, 3016, 10, 55], [[2990, 2980, 3009, 2992, 3016], [55]], 0,
          [\<lparr>d_text = [2990, 2980, 3009, 2992, 3016], d_original_text = Some [76, 2992],
            d_confidence = 0, d_bbox = [[10, 20], [30, 40]]\<rparr>,
           \<lparr>d_text = [55], d_original_text = None, d_confidence = 0, d_bbox = []\<rparr>])"
    by (simp add: normaliser_eval)
  from details_follow_lines [OF run, THEN conjunct1] run show ?thesis
    by simp
qed

section \<open>Failures at the endpoints\<close>

text \<open>
  C7. Take a request that the framework passes to the handler, and let the framework be
  able to serialise the failure result. When a library call of the upload endpoint raises
  (reading the file, decoding, converting to RGB, building the pixel array or the
  recognition call), or one of the URL endpoint (importing the client, fetching, the status
  check, or any of the steps after it), the endpoint answers with status 200 and a body
  with \<open>success\<close> false, an error string that is not null (the \<^verbatim>\<open>str\<close> of the exception),
  empty text, no lines, no details and confidence 0.
\<close>

theorem endpoint_failure_is_reported:
  assumes "accept raw = Some file" and "accept_url raw_url = Some request"
    and "serialises (failed_result e)"
  shows "failed_result e =
       \<lparr>success = False, extracted_text = [], lines = [], confidence = 0, details = [],
        error = Some (str_exception e)\<rparr>
   \<and> (file_read w file = Inl e \<longrightarrow>
        app_post accept serialises (extract_text w) raw =
          \<lparr>status_code = 200, body = Some (failed_result e)\<rparr>)
   \<and> (file_read w file = Inr contents \<longrightarrow> Image_open w contents = Inl e \<longrightarrow>
        app_post accept serialises (extract_text w) raw =
          \<lparr>status_code = 200, body = Some (failed_result e)\<rparr>)
   \<and> (file_read w file = Inr contents \<longrightarrow> Image_open w contents = Inr img \<longrightarrow>
        image_mode w img \<noteq> RGB \<longrightarrow> image_convert w img RGB = Inl e \<longrightarrow>
        app_post accept serialises (extract_text w) raw =
          \<lparr>status_code = 200, body = Some (failed_result e)\<rparr>)
   \<and> (file_read w file = Inr contents \<longrightarrow> Image_open w contents = Inr img \<longrightarrow>
        (if image_mode w img \<noteq> RGB then image_convert w img RGB else Inr img) = Inr rgb_img \<longrightarrow>
        np_array w rgb_img = Inl e \<longrightarrow>
        app_post accept serialises (extract_text w) raw =
          \<lparr>status_code = 200, body = Some (failed_result e)\<rparr>)
   \<and> (file_read w file = Inr contents \<longrightarrow> Image_open w contents = Inr img \<longrightarrow>
        (if image_mode w img \<noteq> RGB then image_convert w img RGB else Inr img) = Inr rgb_img \<longrightarrow>
        np_array w rgb_img = Inr image_np \<longrightarrow> ocr_predict w image_np = Inl e \<longrightarrow>
        app_post accept serialises (extract_text w) raw =
          \<lparr>status_code = 200, body = Some (failed_result e)\<rparr>)
   \<and> (import_httpx w = Inl e \<longrightarrow>
        app_post accept_url serialises (extract_from_url w) raw_url =
          \<lparr>status_code = 200, body = Some (failed_result e)\<rparr>)
   \<and> (import_httpx w = Inr u0 \<longrightarrow> client_get w (url request) = Inl e \<longrightarrow>
        app_post accept_url serialises (extract_from_url w) raw_url =
          \<lparr>status_code = 200, body = Some (failed_result e)\<rparr>)
   \<and> (import_httpx w = Inr u0 \<longrightarrow> client_get w (url request) = Inr response \<longrightarrow>
        raise_for_status w response = Inl e \<longrightarrow>
        app_post accept_url serialises (extract_from_url w) raw_url =
          \<lparr>status_code = 200, body = Some (failed_result e)\<rparr>)
   \<and> (import_httpx w = Inr u0 \<longrightarrow> client_get w (url request) = Inr response \<longrightarrow>
        raise_for_status w response = Inr u1 \<longrightarrow>
        Image_open w (response_content w response) = Inl e \<longrightarrow>
        app_post accept_url serialises (extract_from_url w) raw_url =
          \<lparr>status_code = 200, body = Some (failed_result e)\<rparr>)
   \<and> (import_httpx w = Inr u0 \<longrightarrow> client_get w (url request) = Inr response \<longrightarrow>
        raise_for_status w response = Inr u1 \<longrightarrow>
        Image_open w (response_content w response) = Inr img' \<longrightarrow>
        image_mode w img' \<noteq> RGB \<longrightarrow> image_convert w img' RGB = Inl e \<longrightarrow>
        app_post accept_url serialises (extract_from_url w) raw_url =
          \<lparr>status_code = 200, body = Some (failed_result e)\<rparr>)
   \<and> (import_httpx w = Inr u0 \<longrightarrow> client_get w (url request) = Inr response \<longrightarrow>
        raise_for_status w response = Inr u1 \<longrightarrow>
        Image_open w (response_content w response) = Inr img' \<longrightarrow>
        (if image_mode w img' \<noteq> RGB then image_convert w img' RGB else Inr img') = Inr rgb_img' \<longrightarrow>
        np_array w rgb_img' = Inl e \<longrightarrow>
        app_post accept_url serialises (extract_from_url w) raw_url =
          \<lparr>status_code = 200, body = Some (failed_result e)\<rparr>)
   \<and> (import_httpx w = Inr u0 \<longrightarrow> client_get w (url request) = Inr response \<longrightarrow>
        raise_for_status w response = Inr u1 \<longrightarrow>
        Image_open w (response_content w response) = Inr img' \<longrightarrow>
        (if image_mode w img' \<noteq> RGB then image_convert w img' RGB else Inr img') = Inr rgb_img' \<longrightarrow>
        np_array w rgb_img' = Inr image_np' \<longrightarrow> ocr_predict w image_np' = Inl e \<longrightarrow>
        app_post accept_url serialises (extract_from_url w) raw_url =
          \<lparr>status_code = 200, body = Some (failed_result e)\<rparr>)"
proof -
  have upload: "app_post accept serialises (extract_text w) raw =
          \<lparr>status_code = 200, body = Some (failed_result e)\<rparr>"
    if "extract_text_try w file = Inl e"
    using that assms by (simp add: app_post_def extract_text_def)
  have fetch: "app_post accept_url serialises (extract_from_url w) raw_url =
          \<lparr>status_code = 200, body = Some (failed_result e)\<rparr>"
    if "extract_from_url_try w request = Inl e"
    using that assms by (simp add: app_post_def extract_from_url_def)
  have shape: "failed_result e =
       \<lparr>success = False, extracted_text = [], lines = [], confidence = 0, details = [],
        error = Some (str_exception e)\<rparr>"
    by (simp add: failed_result_def)
  show ?thesis
    apply (intro conjI impI)
                apply (rule shape)
               apply (rule upload, simp add: extract_text_try_def)
              apply (rule upload, simp add: extract_text_try_def recognise_def)
             apply (rule upload, simp add: extract_text_try_def recognise_def)
            apply (rule upload, simp add: extract_text_try_def recognise_def)
           apply (rule upload, simp add: extract_text_try_def recognise_def)
          apply (rule fetch, simp add: extract_from_url_try_def)
         apply (rule fetch, simp add: extract_from_url_try_def)
        apply (rule fetch, simp add: extract_from_url_try_def)
       apply (rule fetch, simp add: extract_from_url_try_def recognise_def)
      apply (rule fetch, simp add: extract_from_url_try_def recognise_def)
     apply (rule fetch, simp add: extract_from_url_try_def recognise_def)
    apply (rule fetch, simp add: extract_from_url_try_def recognise_def)
    done
qed

text \<open>
  C7 with services in which each library call raises on an input of its own: the file
  [0] cannot be read, the bytes [1] are no image, the image [2] is not RGB and cannot be
  converted, [3] gives no pixel array, recognition fails on [4], the URL [5] times out and
  the response [6] has an error status.
\<close>

theorem endpoint_failure_is_reported_witness:
  "app_post Some (\<lambda>r. details r = []) (extract_text 
       \<lparr>file_read = (\<lambda>f. if f = [0] then Inl (Exception [114, 101, 97, 100]) else Inr f),
        Image_open = (\<lambda>b. if b = [1] then Inl (Exception [98, 97, 100]) else Inr b),
        image_mode = (\<lambda>i. if i = [2] then [76] else RGB),
        image_convert = (\<lambda>i m. Inl (Exception [109, 111, 100, 101])),
        np_array = (\<lambda>i. if i = [3] then Inl (Exception [110, 112]) else Inr i),
        ocr_predict = (\<lambda>a. if a = [4] then Inl (Exception [111, 99, 114]) else Inr None),
        import_httpx = Inr (),
        client_get = (\<lambda>u. if u = [5] then Inl (Exception [116, 105, 109, 101]) else Inr u),
        raise_for_status = (\<lambda>r. if r = [6] then Inl (Exception [52, 48, 52]) else Inr ()),
        response_content = (\<lambda>r. r)\<rparr>) ([0] :: nat list) =
     \<lparr>status_code = 200,
      body = Some \<lparr>success = False, extracted_text = [], lines = [], confidence = 0,
                   details = [], error = Some [114, 101, 97, 100]\<rparr>\<rparr>
   \<and> app_post Some (\<lambda>r. details r = []) (extract_text 
       \<lparr>file_read = (\<lambda>f. if f = [0] then Inl (Exception [114, 101, 97, 100]) else Inr f),
        Image_open = (\<lambda>b. if b = [1] then Inl (Exception [98, 97, 100]) else Inr b),
        image_mode = (\<lambda>i. if i = [2] then [76] else RGB),
        image_convert = (\<lambda>i m. Inl (Exception [109, 111, 100, 101])),
        np_array = (\<lambda>i. if i = [3] then Inl (Exception [110, 112]) else Inr i),
        ocr_predict = (\<lambda>a. if a = [4] then Inl (Exception [111, 99, 114]) else Inr None),
        import_httpx = Inr (),
        client_get = (\<lambda>u. if u = [5] then Inl (Exception [116, 105, 109, 101]) else Inr u),
        raise_for_status = (\<lambda>r. if r = [6] then Inl (Exception [52, 48, 52]) else Inr ()),
        response_content = (\<lambda>r. r)\<rparr>) ([1] :: nat list) =
     \<lparr>status_code = 200,
      body = Some \<lparr>success = False, extracted_text = [], lines = [], confidence = 0,
                   details = [], error = Some [98, 97, 100]\<rparr>\<rparr>
   \<and> app_post Some (\<lambda>r. details r = []) (extract_text 
       \<lparr>file_read = (\<lambda>f. if f = [0] then Inl (Exception [114, 101, 97, 100]) else Inr f),
        Image_open = (\<lambda>b. if b = [1] then Inl (Exception [98, 97, 100]) else Inr b),
        image_mode = (\<lambda>i. if i = [2] then [76] else RGB),
        image_convert = (\<lambda>i m. Inl (Exception [109, 111, 100, 101])),
        np_array = (\<lambda>i. if i = [3] then Inl (Exception [110, 112]) else Inr i),
        ocr_predict = (\<lambda>a. if a = [4] then Inl (Exception [111, 99, 114]) else Inr None),
        import_httpx = Inr (),
        client_get = (\<lambda>u. if u = [5] then Inl (Exception [116, 105, 109, 101]) else Inr u),
        raise_for_status = (\<lambda>r. if r = [6] then Inl (Exception [52, 48, 52]) else Inr ()),
        response_content = (\<lambda>r. r)\<rparr>) ([2] :: nat list) =
     \<lparr>status_code = 200,
      body = Some \<lparr>success = False, extracted_text = [], lines = [], confidence = 0,
                   details = [], error = Some [109, 111, 100, 101]\<rparr>\<rparr>
   \<and> app_post Some (\<lambda>r. details r = []) (extract_text 
       \<lparr>file_read = (\<lambda>f. if f = [0] then Inl (Exception [114, 101, 97, 100]) else Inr f),
        Image_open = (\<lambda>b. if b = [1] then Inl (Exception [98, 97, 100]) else Inr b),
        image_mode = (\<lambda>i. if i = [2] then [76] else RGB),
        image_convert = (\<lambda>i m. Inl (Exception [109, 111, 100, 101])),
        np_array = (\<lambda>i. if i = [3] then Inl (Exception [110, 112]) else Inr i),
        ocr_predict = (\<lambda>a. if a = [4] then Inl (Exception [111, 99, 114]) else Inr None),
        import_httpx = Inr (),
        client_get = (\<lambda>u. if u = [5] then Inl (Exception [116, 105, 109, 101]) else Inr u),
        raise_for_status = (\<lambda>r. if r = [6] then Inl (Exception [52, 48, 52]) else Inr ()),
        response_content = (\<lambda>r. r)\<rparr>) ([3] :: nat list) =
     \<lparr>status_code = 200,
      body = Some \<lparr>success = False, extracted_text = [], lines = [], confidence = 0,
                   details = [], error = Some [110, 112]\<rparr>\<rparr>
   \<and> app_post Some (\<lambda>r. details r = []) (extract_text 
       \<lparr>file_read = (\<lambda>f. if f = [0] then Inl (Exception [114, 101, 97, 100]) else Inr f),
        Image_open = (\<lambda>b. if b = [1] then Inl (Exception [98, 97, 100]) else Inr b),
        image_mode = (\<lambda>i. if i = [2] then [76] else RGB),
        image_convert = (\<lambda>i m. Inl (Exception [109, 111, 100, 101])),
        np_array = (\<lambda>i. if i = [3] then Inl (Exception [110, 112]) else Inr i),
        ocr_predict = (\<lambda>a. if a = [4] then Inl (Exception [111, 99, 114]) else Inr None),
        import_httpx = Inr (),
        client_get = (\<lambda>u. if u = [5] then Inl (Exception [116, 105, 109, 101]) else Inr u),
        raise_for_status = (\<lambda>r. if r = [6] then Inl (Exception [52, 48, 52]) else Inr ()),
        response_content = (\<lambda>r. r)\<rparr>) ([4] :: nat list) =
     \<lparr>status_code = 200,
      body = Some \<lparr>success = False, extracted_text = [], lines = [], confidence = 0,
                   details = [], error = Some [111, 99, 114]\<rparr>\<rparr>
   \<and> app_post Some (\<lambda>r. details r = []) (extract_from_url 
       \<lparr>file_read = (\<lambda>f. if f = [0] then Inl (Exception [114, 101, 97, 100]) else Inr f),
        Image_open = (\<lambda>b. if b = [1] then Inl (Exception [98, 97, 100]) else Inr b),
        image_mode = (\<lambda>i. if i = [2] then [76] else RGB),
        image_convert = (\<lambda>i m. Inl (Exception [109, 111, 100, 101])),
        np_array = (\<lambda>i. if i = [3] then Inl (Exception [110, 112]) else Inr i),
        ocr_predict = (\<lambda>a. if a = [4] then Inl (Exception [111, 99, 114]) else Inr None),
        import_httpx = Inr (),
        client_get = (\<lambda>u. if u = [5] then Inl (Exception [116, 105, 109, 101]) else Inr u),
        raise_for_status = (\<lambda>r. if r = [6] then Inl (Exception [52, 48, 52]) else Inr ()),
        response_content = (\<lambda>r. r)\<rparr>) \<lparr>url = [5]\<rparr> =
     \<lparr>status_code = 200,
      body = Some \<lparr>success = False, extracted_text = [], lines = [], confidence = 0,
                   details = [], error = Some [116, 105, 109, 101]\<rparr>\<rparr>
   \<and> app_post Some (\<lambda>r. details r = []) (extract_from_url 
       \<lparr>file_read = (\<lambda>f. if f = [0] then Inl (Exception [114, 101, 97, 100]) else Inr f),
        Image_open = (\<lambda>b. if b = [1] then Inl (Exception [98, 97, 100]) else Inr b),
        image_mode = (\<lambda>i. if i = [2] then [76] else RGB),
        image_convert = (\<lambda>i m. Inl (Exception [109, 111, 100, 101])),
        np_array = (\<lambda>i. if i = [3] then Inl (Exception [110, 112]) else Inr i),
        ocr_predict = (\<lambda>a. if a = [4] then Inl (Exception [111, 99, 114]) else Inr None),
        import_httpx = Inr (),
        client_get = (\<lambda>u. if u = [5] then Inl (Exception [116, 105, 109, 101]) else Inr u),
        raise_for_status = (\<lambda>r. if r = [6] then Inl (Exception [52, 48, 52]) else Inr ()),
        response_content = (\<lambda>r. r)\<rparr>) \<lparr>url = [6]\<rparr> =
     \<lparr>status_code = 200,
      body = Some \<lparr>success = False, extracted_text = [], lines = [], confidence = 0,
                   details = [], error = Some [52, 48, 52]\<rparr>\<rparr>
   \<and> app_post Some (\<lambda>r. details r = []) (extract_from_url 
       \<lparr>file_read = (\<lambda>f. if f = [0] then Inl (Exception [114, 101, 97, 100]) else Inr f),
        Image_open = (\<lambda>b. if b = [1] then Inl (Exception [98, 97, 100]) else Inr b),
        image_mode = (\<lambda>i. if i = [2] then [76] else RGB),
        image_convert = (\<lambda>i m. Inl (Exception [109, 111, 100, 101])),
        np_array = (\<lambda>i. if i = [3] then Inl (Exception [110, 112]) else Inr i),
        ocr_predict = (\<lambda>a. if a = [4] then Inl (Exception [111, 99, 114]) else Inr None),
        import_httpx = Inr (),
        client_get = (\<lambda>u. if u = [5] then Inl (Exception [116, 105, 109, 101]) else Inr u),
        raise_for_status = (\<lambda>r. if r = [6] then Inl (Exception [52, 48, 52]) else Inr ()),
        response_content = (\<lambda>r. r)\<rparr>) \<lparr>url = [1]\<rparr> =
     \<lparr>status_code = 200,
      body = Some \<lparr>success = False, extracted_text = [], lines = [], confidence = 0,
                   details = [], error = Some [98, 97, 100]\<rparr>\<rparr>
   \<and> app_post Some (\<lambda>r. details r = []) (extract_from_url 
       \<lparr>file_read = (\<lambda>f. if f = [0] then Inl (Exception [114, 101, 97, 100]) else Inr f),
        Image_open = (\<lambda>b. if b = [1] then Inl (Exception [98, 97, 100]) else Inr b),
        image_mode = (\<lambda>i. if i = [2] then [76] else RGB),
        image_convert = (\<lambda>i m. Inl (Exception [109, 111, 100, 101])),
        np_array = (\<lambda>i. if i = [3] then Inl (Exception [110, 112]) else Inr i),
        ocr_predict = (\<lambda>a. if a = [4] then Inl (Exception [111, 99, 114]) else Inr None),
        import_httpx = Inr (),
        client_get = (\<lambda>u. if u = [5] then Inl (Exception [116, 105, 109, 101]) else Inr u),
        raise_for_status = (\<lambda>r. if r = [6] then Inl (Exception [52, 48, 52]) else Inr ()),
        response_content = (\<lambda>r. r)\<rparr>) \<lparr>url = [4]\<rparr> =
     \<lparr>status_code = 200,
      body = Some \<lparr>success = False, extracted_text = [], lines = [], confidence = 0,
                   details = [], error = Some [111, 99, 114]\<rparr>\<rparr>"
proof -
  let ?w = "\<lparr>file_read = (\<lambda>f. if f = [0] then Inl (Exception [114, 101, 97, 100]) else Inr f),
        Image_open = (\<lambda>b. if b = [1] then Inl (Exception [98, 97, 100]) else Inr b),
        image_mode = (\<lambda>i. if i = [2] then [76] else RGB),
        image_convert = (\<lambda>i m. Inl (Exception [109, 111, 100, 101])),
        np_array = (\<lambda>i. if i = [3] then Inl (Exception [110, 112]) else Inr i),
        ocr_predict = (\<lambda>a. if a = [4] then Inl (Exception [111, 99, 114]) else Inr None),
        import_httpx = Inr (),
        client_get = (\<lambda>u. if u = [5] then Inl (Exception [116, 105, 109, 101]) else Inr u),
        raise_for_status = (\<lambda>r. if r = [6] then Inl (Exception [52, 48, 52]) else Inr ()),
        response_content = (\<lambda>r. r)\<rparr> :: (nat list, nat list, nat list, nat list, nat list) services"
  note defs = app_post_def extract_text_def extract_text_try_def extract_from_url_def
    extract_from_url_try_def recognise_def failed_result_def RGB_def
  have ok: "(\<lambda>r. details r = []) (failed_result e)" for e
    by (simp add: failed_result_def)
  have "app_post Some (\<lambda>r. details r = []) (extract_text ?w) ([4] :: nat list) =
      \<lparr>status_code = 200, body = Some (failed_result (Exception [111, 99, 114]))\<rparr>"
    using endpoint_failure_is_reported
            [where accept = Some and raw = "[4]" and ?file = "[4]" and accept_url = Some
               and raw_url = "\<lparr>url = [6]\<rparr>" and request = "\<lparr>url = [6]\<rparr>"
               and serialises = "\<lambda>r. details r = []" and e = "Exception [111, 99, 114]"
               and w = ?w and contents = "[4]" and img = "[4]" and rgb_img = "[4]"
               and image_np = "[4]", OF refl refl ok]
    by (simp add: RGB_def)
  moreover have "app_post Some (\<lambda>r. details r = []) (extract_from_url ?w) \<lparr>url = [6]\<rparr> =
      \<lparr>status_code = 200, body = Some (failed_result (Exception [52, 48, 52]))\<rparr>"
    using endpoint_failure_is_reported
            [where accept = Some and raw = "[4]" and ?file = "[4]" and accept_url = Some
               and raw_url = "\<lparr>url = [6]\<rparr>" and request = "\<lparr>url = [6]\<rparr>"
               and serialises = "\<lambda>r. details r = []" and e = "Exception [52, 48, 52]"
               and w = ?w and response = "[6]" and ?u0.0 = "()", OF refl refl ok]
    by (simp add: RGB_def)
  ultimately show ?thesis
    by (simp add: defs)
qed

end
